theory Spec2Isabelle
  imports Complex_Main
begin

section \<open>NumPy floating-point values\<close>

text \<open>
  The program computes on NumPy \<open>float64\<close> values. A value is modelled as either a
  finite number, carried as an exact real (rounding and overflow of finite arithmetic
  are not modelled, and zero is unsigned, read as \<open>+0.0\<close>), or one of the three
  special values of IEEE 754. Arithmetic on the special values follows IEEE 754 as
  NumPy implements it: NumPy does not raise on a division by zero or an invalid
  operation, it returns an infinity or NaN.
\<close>

datatype npfloat = Fin real | PInf | NInf | NaN

fun np_neg :: "npfloat \<Rightarrow> npfloat" where
  "np_neg (Fin u) = Fin (- u)"
| "np_neg PInf = NInf"
| "np_neg NInf = PInf"
| "np_neg NaN = NaN"

fun np_add :: "npfloat \<Rightarrow> npfloat \<Rightarrow> npfloat" where
  "np_add (Fin u) (Fin v) = Fin (u + v)"
| "np_add NaN _ = NaN"
| "np_add _ NaN = NaN"
| "np_add PInf NInf = NaN"
| "np_add NInf PInf = NaN"
| "np_add PInf _ = PInf"
| "np_add _ PInf = PInf"
| "np_add NInf _ = NInf"
| "np_add _ NInf = NInf"

definition np_sub :: "npfloat \<Rightarrow> npfloat \<Rightarrow> npfloat" where
  "np_sub u v = np_add u (np_neg v)"

text \<open>The sign of an infinite product or quotient, from the sign of the finite operand.\<close>

definition signed_inf :: "bool \<Rightarrow> npfloat" where
  "signed_inf positive = (if positive then PInf else NInf)"

fun np_mul :: "npfloat \<Rightarrow> npfloat \<Rightarrow> npfloat" where
  "np_mul (Fin u) (Fin v) = Fin (u * v)"
| "np_mul NaN _ = NaN"
| "np_mul _ NaN = NaN"
| "np_mul (Fin u) PInf = (if u = 0 then NaN else signed_inf (0 < u))"
| "np_mul (Fin u) NInf = (if u = 0 then NaN else signed_inf (u < 0))"
| "np_mul PInf (Fin v) = (if v = 0 then NaN else signed_inf (0 < v))"
| "np_mul NInf (Fin v) = (if v = 0 then NaN else signed_inf (v < 0))"
| "np_mul PInf PInf = PInf"
| "np_mul PInf NInf = NInf"
| "np_mul NInf PInf = NInf"
| "np_mul NInf NInf = PInf"

fun np_div :: "npfloat \<Rightarrow> npfloat \<Rightarrow> npfloat" where
  "np_div (Fin u) (Fin v) =
     (if v \<noteq> 0 then Fin (u / v) else if u = 0 then NaN else signed_inf (0 < u))"
| "np_div NaN _ = NaN"
| "np_div _ NaN = NaN"
| "np_div (Fin u) PInf = Fin 0"
| "np_div (Fin u) NInf = Fin 0"
| "np_div PInf (Fin v) = signed_inf (0 \<le> v)"
| "np_div NInf (Fin v) = signed_inf (v < 0)"
| "np_div PInf PInf = NaN"
| "np_div PInf NInf = NaN"
| "np_div NInf PInf = NaN"
| "np_div NInf NInf = NaN"

text \<open>\<open>x ** n\<close> for a literal exponent \<open>n\<close> (the program uses 2 and 3).\<close>

fun np_power :: "npfloat \<Rightarrow> nat \<Rightarrow> npfloat" where
  "np_power (Fin u) n = Fin (u ^ n)"
| "np_power PInf n = (if n = 0 then Fin 1 else PInf)"
| "np_power NInf n = (if n = 0 then Fin 1 else if even n then PInf else NInf)"
| "np_power NaN n = (if n = 0 then Fin 1 else NaN)"

fun np_sqrt :: "npfloat \<Rightarrow> npfloat" where
  "np_sqrt (Fin u) = (if 0 \<le> u then Fin (sqrt u) else NaN)"
| "np_sqrt PInf = PInf"
| "np_sqrt NInf = NaN"
| "np_sqrt NaN = NaN"

fun np_abs :: "npfloat \<Rightarrow> npfloat" where
  "np_abs (Fin u) = Fin \<bar>u\<bar>"
| "np_abs PInf = PInf"
| "np_abs NInf = PInf"
| "np_abs NaN = NaN"

fun np_sin :: "npfloat \<Rightarrow> npfloat" where
  "np_sin (Fin u) = Fin (sin u)"
| "np_sin _ = NaN"

fun np_cos :: "npfloat \<Rightarrow> npfloat" where
  "np_cos (Fin u) = Fin (cos u)"
| "np_cos _ = NaN"

fun np_exp :: "npfloat \<Rightarrow> npfloat" where
  "np_exp (Fin u) = Fin (exp u)"
| "np_exp PInf = PInf"
| "np_exp NInf = Fin 0"
| "np_exp NaN = NaN"

text \<open>Comparisons: every comparison with NaN is false.\<close>

fun np_less :: "npfloat \<Rightarrow> npfloat \<Rightarrow> bool" where
  "np_less (Fin u) (Fin v) = (u < v)"
| "np_less NaN _ = False"
| "np_less _ NaN = False"
| "np_less _ NInf = False"
| "np_less PInf _ = False"
| "np_less NInf _ = True"
| "np_less _ PInf = True"

fun np_le :: "npfloat \<Rightarrow> npfloat \<Rightarrow> bool" where
  "np_le (Fin u) (Fin v) = (u \<le> v)"
| "np_le NaN _ = False"
| "np_le _ NaN = False"
| "np_le NInf _ = True"
| "np_le _ PInf = True"
| "np_le _ NInf = False"
| "np_le PInf _ = False"

definition np_greater :: "npfloat \<Rightarrow> npfloat \<Rightarrow> bool" where
  "np_greater u v = np_less v u"

text \<open>\<open>np.maximum\<close> and \<open>np.minimum\<close> propagate NaN; \<open>np.clip(x, lo, hi)\<close> is
  \<open>minimum(maximum(x, lo), hi)\<close>.\<close>

definition np_maximum :: "npfloat \<Rightarrow> npfloat \<Rightarrow> npfloat" where
  "np_maximum u v = (if u = NaN \<or> v = NaN then NaN else if np_less u v then v else u)"

definition np_minimum :: "npfloat \<Rightarrow> npfloat \<Rightarrow> npfloat" where
  "np_minimum u v = (if u = NaN \<or> v = NaN then NaN else if np_less v u then v else u)"

definition np_clip :: "npfloat \<Rightarrow> npfloat \<Rightarrow> npfloat \<Rightarrow> npfloat" where
  "np_clip u lo hi = np_minimum (np_maximum u lo) hi"

text \<open>The two-argument arctangent on finite arguments, with value in \<open>(-\<pi>, \<pi>]\<close>.\<close>

definition arctan2 :: "real \<Rightarrow> real \<Rightarrow> real" where
  "arctan2 v u =
     (if 0 < u then arctan (v / u)
      else if u < 0 then (if 0 \<le> v then arctan (v / u) + pi else arctan (v / u) - pi)
      else if 0 < v then pi / 2
      else if v < 0 then - (pi / 2)
      else 0)"

text \<open>\<open>np.arctan2\<close>, with the values C99 gives at the infinities.\<close>

fun np_arctan2 :: "npfloat \<Rightarrow> npfloat \<Rightarrow> npfloat" where
  "np_arctan2 (Fin v) (Fin u) = Fin (arctan2 v u)"
| "np_arctan2 NaN _ = NaN"
| "np_arctan2 _ NaN = NaN"
| "np_arctan2 (Fin v) PInf = Fin 0"
| "np_arctan2 (Fin v) NInf = (if 0 \<le> v then Fin pi else Fin (- pi))"
| "np_arctan2 PInf (Fin u) = Fin (pi / 2)"
| "np_arctan2 NInf (Fin u) = Fin (- (pi / 2))"
| "np_arctan2 PInf PInf = Fin (pi / 4)"
| "np_arctan2 PInf NInf = Fin (3 * pi / 4)"
| "np_arctan2 NInf PInf = Fin (- (pi / 4))"
| "np_arctan2 NInf NInf = Fin (- (3 * pi / 4))"

section \<open>The physics model\<close>

text \<open>
  \<open>class BlackHolePhysics\<close>. The constructor takes Python floats and stores them; it
  makes no check of its arguments, so no error is a possible outcome.
\<close>

datatype error = ValueError | OverflowError | IndexError

record BlackHolePhysics =
  M :: real
  a :: real
  rs :: real
  c :: real

definition BlackHolePhysics_init :: "real \<Rightarrow> real \<Rightarrow> error + BlackHolePhysics" where
  "BlackHolePhysics_init mass spin =
     Inr \<lparr>M = mass, a = spin * mass, rs = 2 * mass, c = 1\<rparr>"

text \<open>
  The methods are written in the source for NumPy arrays and apply cell by cell; each
  is modelled on one cell, and mapped over the arrays where it is called.
\<close>

definition schwarzschild_metric_effects :: "BlackHolePhysics \<Rightarrow> npfloat \<Rightarrow> npfloat \<times> npfloat" where
  "schwarzschild_metric_effects self r =
     (let time_dilation = np_sqrt (np_maximum (np_sub (Fin 1) (np_div (Fin (rs self)) r)) (Fin (1/100)));
          spatial_curvature = np_div (Fin 1) (np_maximum (np_sub (Fin 1) (np_div (Fin (rs self)) r)) (Fin (1/100)))
      in (time_dilation, spatial_curvature))"

definition gravitational_lensing :: "BlackHolePhysics \<Rightarrow> npfloat \<Rightarrow> npfloat \<Rightarrow> npfloat \<times> npfloat" where
  "gravitational_lensing self x y =
     (let r0 = np_sqrt (np_add (np_power x 2) (np_power y 2));
          r = np_maximum r0 (Fin (1/10));
          deflection_strength = np_div (Fin (4 * M self)) r;
          cos_theta = np_div x r;
          sin_theta = np_div y r;
          deflection_x = np_mul (np_neg deflection_strength) sin_theta;
          deflection_y = np_mul deflection_strength cos_theta
      in (deflection_x, deflection_y))"

definition doppler_shift :: "BlackHolePhysics \<Rightarrow> npfloat \<Rightarrow> npfloat \<Rightarrow> real \<Rightarrow> npfloat" where
  "doppler_shift self x y rotation_angle =
     (let r = np_sqrt (np_add (np_power x 2) (np_power y 2));
          omega_drag = np_div (Fin (2 * M self * a self))
                         (np_add (np_power r 3) (np_mul (Fin ((a self)\<^sup>2)) r));
          phi = np_arctan2 y x;
          v_phi = np_mul omega_drag r;
          doppler_factor =
            np_div (Fin 1)
              (np_add (Fin 1) (np_mul v_phi (np_sin (np_add phi (Fin rotation_angle)))))
      in np_clip doppler_factor (Fin (3/10)) (Fin 2))"

section \<open>Arrays, indexing and loops\<close>

text \<open>
  A two-dimensional NumPy array is a list of rows. Arithmetic between arrays of one
  shape, and between an array and a scalar, is cell by cell.
\<close>

type_synonym ndarray = "npfloat list list"

definition arr_map :: "(npfloat \<Rightarrow> npfloat) \<Rightarrow> ndarray \<Rightarrow> ndarray" where
  "arr_map f A = map (map f) A"

definition arr_map2 :: "(npfloat \<Rightarrow> npfloat \<Rightarrow> npfloat) \<Rightarrow> ndarray \<Rightarrow> ndarray \<Rightarrow> ndarray" where
  "arr_map2 f A B = map2 (\<lambda>ra rb. map2 f ra rb) A B"

definition ebind :: "error + 'a \<Rightarrow> ('a \<Rightarrow> error + 'b) \<Rightarrow> error + 'b" where
  "ebind m f = (case m of Inl e \<Rightarrow> Inl e | Inr v \<Rightarrow> f v)"

text \<open>
  Reading \<open>A[i, j]\<close> and writing \<open>A[i, j] = v\<close>: a negative index counts from the end,
  and an index out of range raises \<open>IndexError\<close>.
\<close>

definition py_index :: "nat \<Rightarrow> int \<Rightarrow> error + nat" where
  "py_index n i =
     (let k = (if i < 0 then int n + i else i)
      in if 0 \<le> k \<and> k < int n then Inr (nat k) else Inl IndexError)"

definition get2 :: "ndarray \<Rightarrow> int \<Rightarrow> int \<Rightarrow> error + npfloat" where
  "get2 A i j =
     ebind (py_index (length A) i) (\<lambda>i'.
     ebind (py_index (length (A ! i')) j) (\<lambda>j'.
       Inr (A ! i' ! j')))"

definition set2 :: "ndarray \<Rightarrow> int \<Rightarrow> int \<Rightarrow> npfloat \<Rightarrow> error + ndarray" where
  "set2 A i j v =
     ebind (py_index (length A) i) (\<lambda>i'.
     ebind (py_index (length (A ! i')) j) (\<lambda>j'.
       Inr (A[i' := (A ! i')[j' := v]])))"

text \<open>
  Python's \<open>int(x)\<close> on a float truncates towards zero; it raises \<open>ValueError\<close> on NaN
  and \<open>OverflowError\<close> on an infinity.
\<close>

fun py_int :: "npfloat \<Rightarrow> error + int" where
  "py_int (Fin u) = Inr (if 0 \<le> u then \<lfloor>u\<rfloor> else \<lceil>u\<rceil>)"
| "py_int NaN = Inl ValueError"
| "py_int _ = Inl OverflowError"

text \<open>\<open>for k in ks: body\<close>, the body transforming the state or raising.\<close>

fun for_each :: "nat list \<Rightarrow> (nat \<Rightarrow> 's \<Rightarrow> error + 's) \<Rightarrow> 's \<Rightarrow> error + 's" where
  "for_each [] body s = Inr s"
| "for_each (k # ks) body s = ebind (body k s) (for_each ks body)"

text \<open>
  \<open>np.linspace(start, stop, num)\<close>: \<open>num\<close> evenly spaced samples, the last one set to
  \<open>stop\<close>; a negative \<open>num\<close> raises \<open>ValueError\<close>, and a single sample is \<open>start\<close>.
\<close>

definition linspace :: "real \<Rightarrow> real \<Rightarrow> int \<Rightarrow> error + npfloat list" where
  "linspace start stop num =
     (if num < 0 then Inl ValueError
      else if num \<le> 1 then Inr (map (\<lambda>k. Fin start) [0..<nat num])
      else
        let step = (stop - start) / real_of_int (num - 1);
            ys = map (\<lambda>k. Fin (real k * step + start)) [0..<nat num]
        in Inr (ys[nat num - 1 := Fin stop]))"

definition meshgrid :: "npfloat list \<Rightarrow> npfloat list \<Rightarrow> ndarray \<times> ndarray" where
  "meshgrid xs ys = (map (\<lambda>v. xs) ys, map (\<lambda>v. map (\<lambda>u. v) xs) ys)"

section \<open>The renderer\<close>

text \<open>
  \<open>class GravitationalLensingAnimation\<close>. Its constructor fixes mass 2.0 and spin 0.8,
  and the grid extent 8; the only parameter is \<open>grid_size\<close>.
\<close>

record GravitationalLensingAnimation =
  black_hole :: BlackHolePhysics
  grid_size :: int
  X :: ndarray
  Y :: ndarray
  R :: ndarray
  background :: ndarray

text \<open>The array \<open>np.sqrt(X**2 + Y**2)\<close> that \<open>setup_coordinates\<close> stores in \<open>self.R\<close>.\<close>

definition radius_array :: "ndarray \<Rightarrow> ndarray \<Rightarrow> ndarray" where
  "radius_array Xg Yg =
     arr_map np_sqrt (arr_map2 np_add (arr_map (\<lambda>u. np_power u 2) Xg)
                                      (arr_map (\<lambda>u. np_power u 2) Yg))"

definition setup_coordinates ::
  "GravitationalLensingAnimation \<Rightarrow> error + GravitationalLensingAnimation" where
  "setup_coordinates self =
     (let extent = 8 in
      ebind (linspace (- extent) extent (grid_size self)) (\<lambda>x.
      ebind (linspace (- extent) extent (grid_size self)) (\<lambda>y.
        let (Xg, Yg) = meshgrid x y
        in Inr (self\<lparr>X := Xg, Y := Yg, R := radius_array Xg Yg\<rparr>))))"

text \<open>
  \<open>create_background_pattern\<close> first binds \<open>self.background\<close> to the array
  \<open>0.5 + 0.3 * pattern1 + 0.2 * pattern2\<close>, then adds \<open>0.2 * radial_pattern\<close> to it.
\<close>

definition background_base :: "GravitationalLensingAnimation \<Rightarrow> ndarray" where
  "background_base self =
     (let grid_freq = 8;
          pattern1 = arr_map2 np_mul
                       (arr_map np_sin (arr_map (\<lambda>u. np_mul u (Fin grid_freq)) (X self)))
                       (arr_map np_sin (arr_map (\<lambda>u. np_mul u (Fin grid_freq)) (Y self)));
          pattern2 = arr_map2 np_mul
                       (arr_map np_sin
                          (arr_map (\<lambda>u. np_mul (np_mul u (Fin grid_freq)) (Fin (7/10))) (X self)))
                       (arr_map np_cos
                          (arr_map (\<lambda>u. np_mul (np_mul u (Fin grid_freq)) (Fin (13/10))) (Y self)))
      in arr_map2 np_add
           (arr_map (\<lambda>u. np_add (Fin (1/2)) (np_mul (Fin (3/10)) u)) pattern1)
           (arr_map (\<lambda>u. np_mul (Fin (2/10)) u) pattern2))"

definition radial_pattern :: "GravitationalLensingAnimation \<Rightarrow> ndarray" where
  "radial_pattern self =
     arr_map2 np_mul
       (arr_map np_sin (arr_map (\<lambda>u. np_mul u (Fin 2)) (R self)))
       (arr_map np_exp (arr_map (\<lambda>u. np_div (np_neg u) (Fin 10)) (R self)))"

definition create_background_pattern ::
  "GravitationalLensingAnimation \<Rightarrow> GravitationalLensingAnimation" where
  "create_background_pattern self =
     (let self = self\<lparr>background := background_base self\<rparr>
      in self\<lparr>background :=
                 arr_map2 np_add (background self)
                   (arr_map (\<lambda>u. np_mul (Fin (2/10)) u) (radial_pattern self))\<rparr>)"

definition GravitationalLensingAnimation_init :: "int \<Rightarrow> error + GravitationalLensingAnimation" where
  "GravitationalLensingAnimation_init n =
     ebind (BlackHolePhysics_init 2 (8/10)) (\<lambda>bh.
     ebind (setup_coordinates
              \<lparr>black_hole = bh, grid_size = n, X = [], Y = [], R = [], background = []\<rparr>) (\<lambda>self.
       Inr (create_background_pattern self)))"

text \<open>
  The guarded read that ends the loop body of \<open>calculate_lensed_image\<close>: with the two
  indices \<open>grid_x\<close> and \<open>grid_y\<close> already computed, the bounds test and the assignment
  \<open>lensed_image[i, j] = self.background[grid_y, grid_x]\<close>.
\<close>

definition background_lookup ::
  "GravitationalLensingAnimation \<Rightarrow> int \<Rightarrow> int \<Rightarrow> int \<Rightarrow> int \<Rightarrow> ndarray \<Rightarrow> error + ndarray" where
  "background_lookup self grid_x grid_y i j lensed_image =
     (if 0 \<le> grid_x \<and> grid_x < grid_size self \<and> 0 \<le> grid_y \<and> grid_y < grid_size self then
        ebind (get2 (background self) grid_y grid_x) (\<lambda>v. set2 lensed_image i j v)
      else Inr lensed_image)"

text \<open>The body of the double loop of \<open>calculate_lensed_image\<close>, at cell \<open>(i, j)\<close>.\<close>

definition lens_pixel ::
  "GravitationalLensingAnimation \<Rightarrow> ndarray \<Rightarrow> ndarray \<Rightarrow> int \<Rightarrow> int \<Rightarrow> ndarray \<Rightarrow> error + ndarray" where
  "lens_pixel self source_x source_y i j lensed_image =
     ebind (get2 source_x i j) (\<lambda>sx.
     ebind (get2 source_y i j) (\<lambda>sy.
     ebind (get2 (R self) i j) (\<lambda>r.
       if np_less r (Fin (rs (black_hole self) * (11/10))) then set2 lensed_image i j (Fin 0)
       else if np_less (np_abs sx) (Fin 8) \<and> np_less (np_abs sy) (Fin 8) then
         ebind (py_int (np_div (np_mul (np_add sx (Fin 8)) (Fin (real_of_int (grid_size self)))) (Fin 16))) (\<lambda>grid_x.
         ebind (py_int (np_div (np_mul (np_add sy (Fin 8)) (Fin (real_of_int (grid_size self)))) (Fin 16))) (\<lambda>grid_y.
           background_lookup self grid_x grid_y i j lensed_image))
       else Inr lensed_image)))"

text \<open>The source positions computed before the loop of \<open>calculate_lensed_image\<close>.\<close>

definition source_positions ::
  "GravitationalLensingAnimation \<Rightarrow> real \<Rightarrow> ndarray \<times> ndarray" where
  "source_positions self rotation_angle =
     (let deflection_x = arr_map2 (\<lambda>u v. fst (gravitational_lensing (black_hole self) u v)) (X self) (Y self);
          deflection_y = arr_map2 (\<lambda>u v. snd (gravitational_lensing (black_hole self) u v)) (X self) (Y self);
          cos_rot = Fin (cos rotation_angle);
          sin_rot = Fin (sin rotation_angle);
          deflection_x_rot = arr_map2 np_sub (arr_map (\<lambda>u. np_mul u cos_rot) deflection_x)
                                             (arr_map (\<lambda>u. np_mul u sin_rot) deflection_y);
          deflection_y_rot = arr_map2 np_add (arr_map (\<lambda>u. np_mul u sin_rot) deflection_x)
                                             (arr_map (\<lambda>u. np_mul u cos_rot) deflection_y);
          source_x = arr_map2 np_add (X self) deflection_x_rot;
          source_y = arr_map2 np_add (Y self) deflection_y_rot
      in (source_x, source_y))"

definition calculate_lensed_image ::
  "GravitationalLensingAnimation \<Rightarrow> real \<Rightarrow> error + ndarray" where
  "calculate_lensed_image self rotation_angle =
     (let lensed_image = arr_map (\<lambda>u. Fin 0) (X self);
          (source_x, source_y) = source_positions self rotation_angle
      in for_each [0..<nat (grid_size self)] (\<lambda>i.
           for_each [0..<nat (grid_size self)] (\<lambda>j.
             lens_pixel self source_x source_y (int i) (int j))) lensed_image)"

text \<open>
  In \<open>apply_relativistic_effects\<close>: the array \<open>image * time_dilation * doppler_factor\<close>
  first bound to \<open>relativistic_image\<close>, and the array \<open>brightening\<close> it is then multiplied by.
\<close>

definition relativistic_product ::
  "GravitationalLensingAnimation \<Rightarrow> ndarray \<Rightarrow> real \<Rightarrow> ndarray" where
  "relativistic_product self img rotation_angle =
     (let time_dilation = arr_map (\<lambda>u. fst (schwarzschild_metric_effects (black_hole self) u)) (R self);
          doppler_factor = arr_map2 (\<lambda>u v. doppler_shift (black_hole self) u v rotation_angle) (X self) (Y self)
      in arr_map2 np_mul (arr_map2 np_mul img time_dilation) doppler_factor)"

definition brightening :: "GravitationalLensingAnimation \<Rightarrow> ndarray" where
  "brightening self =
     arr_map (\<lambda>u. if np_greater u (Fin (rs (black_hole self)))
                   then np_add (Fin 1) (np_div (Fin (2 * M (black_hole self))) (np_power u 2))
                   else Fin 1) (R self)"

definition apply_relativistic_effects ::
  "GravitationalLensingAnimation \<Rightarrow> ndarray \<Rightarrow> real \<Rightarrow> ndarray" where
  "apply_relativistic_effects self img rotation_angle =
     (let relativistic_image = relativistic_product self img rotation_angle;
          relativistic_image = arr_map2 np_mul relativistic_image (brightening self)
      in arr_map (\<lambda>u. np_clip u (Fin 0) (Fin 2)) relativistic_image)"

definition create_photon_sphere_glow ::
  "GravitationalLensingAnimation \<Rightarrow> real \<Rightarrow> ndarray" where
  "create_photon_sphere_glow self rotation_angle =
     (let photon_radius = 3/2 * rs (black_hole self);
          ring_distance = arr_map (\<lambda>u. np_abs (np_sub u (Fin photon_radius))) (R self);
          ring_intensity = arr_map (\<lambda>u. np_mul (np_exp (np_div (np_neg (np_power u 2)) (Fin (1/2)))) (Fin 2))
                             ring_distance;
          phi = arr_map2 np_arctan2 (Y self) (X self);
          rotation_pattern = arr_map
                               (\<lambda>u. np_add (Fin 1)
                                       (np_mul (Fin (1/2))
                                          (np_sin (np_add (np_mul (Fin 3) u) (Fin (rotation_angle * 4))))))
                               phi
      in arr_map2 np_mul ring_intensity rotation_pattern)"

text \<open>
  The frame that \<open>animate\<close> computes and hands to the plotting library: the relativistic
  image plus the glow, with the cells at or inside the horizon set to 0. The drawing
  itself is not modelled.
\<close>

definition final_image :: "GravitationalLensingAnimation \<Rightarrow> real \<Rightarrow> error + ndarray" where
  "final_image lensing_sim rotation_angle =
     ebind (calculate_lensed_image lensing_sim rotation_angle) (\<lambda>lensed_image.
       let relativistic_image = apply_relativistic_effects lensing_sim lensed_image rotation_angle;
           photon_glow = create_photon_sphere_glow lensing_sim rotation_angle;
           final = arr_map2 np_add relativistic_image photon_glow
       in Inr (arr_map2 (\<lambda>r u. if np_le r (Fin (rs (black_hole lensing_sim))) then Fin 0 else u)
                 (R lensing_sim) final))"

definition animate :: "GravitationalLensingAnimation \<Rightarrow> int \<Rightarrow> error + ndarray" where
  "animate lensing_sim frame = final_image lensing_sim (real_of_int frame * (5/100))"

section \<open>The renderer on a store of arrays\<close>

text \<open>
  NumPy arrays are mutable objects, and the program updates some of them in place
  (\<open>self.background += ...\<close>, \<open>lensed_image[i, j] = ...\<close>, \<open>relativistic_image *= ...\<close>,
  \<open>final_image[mask] = 0\<close>). To tell which arrays an update can reach, the same methods
  are modelled once more on a store of arrays. The arrays held by the attributes of the
  renderer, the arrays that are updated in place and the arrays that a method returns live
  at addresses: the expression that makes such an array (\<open>np.zeros_like\<close>, \<open>np.clip\<close>,
  an arithmetic expression) allocates it, and an in-place operation overwrites the array at
  the address of its left-hand side. The other intermediate arrays, which nothing updates,
  are carried as values. The attributes of the renderer hold addresses, and a method reads
  them off the store at the moment it uses them. No per-frame method assigns an attribute
  of \<open>self\<close>, so these methods return the store only.
\<close>

type_synonym addr = nat

record heap =
  cells :: "addr \<Rightarrow> ndarray"
  fresh :: addr

definition alloc :: "heap \<Rightarrow> ndarray \<Rightarrow> addr \<times> heap" where
  "alloc h A = (fresh h, \<lparr>cells = (cells h)(fresh h := A), fresh = Suc (fresh h)\<rparr>)"

definition overwrite :: "heap \<Rightarrow> addr \<Rightarrow> ndarray \<Rightarrow> heap" where
  "overwrite h p A = h\<lparr>cells := (cells h)(p := A)\<rparr>"

record renderer_object =
  black_hole_attr :: BlackHolePhysics
  grid_size_attr :: int
  X_ref :: addr
  Y_ref :: addr
  R_ref :: addr
  background_ref :: addr

text \<open>The renderer as the methods read it off the store.\<close>

definition view :: "heap \<Rightarrow> renderer_object \<Rightarrow> GravitationalLensingAnimation" where
  "view h self =
     \<lparr>black_hole = black_hole_attr self, grid_size = grid_size_attr self,
      X = cells h (X_ref self), Y = cells h (Y_ref self), R = cells h (R_ref self),
      background = cells h (background_ref self)\<rparr>"

definition setup_coordinates_heap ::
  "renderer_object \<Rightarrow> heap \<Rightarrow> error + renderer_object \<times> heap" where
  "setup_coordinates_heap self h =
     (let extent = 8 in
      ebind (linspace (- extent) extent (grid_size_attr self)) (\<lambda>x.
      ebind (linspace (- extent) extent (grid_size_attr self)) (\<lambda>y.
        let (Xg, Yg) = meshgrid x y;
            (px, h) = alloc h Xg;
            (py, h) = alloc h Yg;
            self = self\<lparr>X_ref := px, Y_ref := py\<rparr>;
            (pr, h) = alloc h (radius_array (cells h (X_ref self)) (cells h (Y_ref self)))
        in Inr (self\<lparr>R_ref := pr\<rparr>, h))))"

definition create_background_pattern_heap ::
  "renderer_object \<Rightarrow> heap \<Rightarrow> renderer_object \<times> heap" where
  "create_background_pattern_heap self h =
     (let (pb, h) = alloc h (background_base (view h self));
          self = self\<lparr>background_ref := pb\<rparr>;
          h = overwrite h (background_ref self)
                (arr_map2 np_add (cells h (background_ref self))
                   (arr_map (\<lambda>u. np_mul (Fin (2/10)) u) (radial_pattern (view h self))))
      in (self, h))"

definition init_heap :: "int \<Rightarrow> heap \<Rightarrow> error + renderer_object \<times> heap" where
  "init_heap n h =
     ebind (BlackHolePhysics_init 2 (8/10)) (\<lambda>bh.
     ebind (setup_coordinates_heap
              \<lparr>black_hole_attr = bh, grid_size_attr = n,
               X_ref = 0, Y_ref = 0, R_ref = 0, background_ref = 0\<rparr> h) (\<lambda>(self, h).
       Inr (create_background_pattern_heap self h)))"

definition calculate_lensed_image_heap ::
  "renderer_object \<Rightarrow> real \<Rightarrow> heap \<Rightarrow> error + addr \<times> heap" where
  "calculate_lensed_image_heap self rotation_angle h =
     (let (lensed_image, h) = alloc h (arr_map (\<lambda>u. Fin 0) (cells h (X_ref self)));
          (source_x, source_y) = source_positions (view h self) rotation_angle
      in ebind
           (for_each [0..<nat (grid_size_attr self)] (\<lambda>i.
              for_each [0..<nat (grid_size_attr self)] (\<lambda>j h.
                ebind (lens_pixel (view h self) source_x source_y (int i) (int j) (cells h lensed_image))
                  (\<lambda>img. Inr (overwrite h lensed_image img)))) h)
           (\<lambda>h. Inr (lensed_image, h)))"

definition apply_relativistic_effects_heap ::
  "renderer_object \<Rightarrow> addr \<Rightarrow> real \<Rightarrow> heap \<Rightarrow> addr \<times> heap" where
  "apply_relativistic_effects_heap self img rotation_angle h =
     (let (relativistic_image, h) = alloc h (relativistic_product (view h self) (cells h img) rotation_angle);
          h = overwrite h relativistic_image
                (arr_map2 np_mul (cells h relativistic_image) (brightening (view h self)))
      in alloc h (arr_map (\<lambda>u. np_clip u (Fin 0) (Fin 2)) (cells h relativistic_image)))"

definition create_photon_sphere_glow_heap ::
  "renderer_object \<Rightarrow> real \<Rightarrow> heap \<Rightarrow> addr \<times> heap" where
  "create_photon_sphere_glow_heap self rotation_angle h =
     alloc h (create_photon_sphere_glow (view h self) rotation_angle)"

definition final_image_heap ::
  "renderer_object \<Rightarrow> real \<Rightarrow> heap \<Rightarrow> error + addr \<times> heap" where
  "final_image_heap lensing_sim rotation_angle h =
     ebind (calculate_lensed_image_heap lensing_sim rotation_angle h) (\<lambda>(lensed_image, h).
       let (relativistic_image, h) = apply_relativistic_effects_heap lensing_sim lensed_image rotation_angle h;
           (photon_glow, h) = create_photon_sphere_glow_heap lensing_sim rotation_angle h;
           (final, h) = alloc h (arr_map2 np_add (cells h relativistic_image) (cells h photon_glow));
           h = overwrite h final
                 (arr_map2 (\<lambda>r u. if np_le r (Fin (rs (black_hole_attr lensing_sim))) then Fin 0 else u)
                    (cells h (R_ref lensing_sim)) (cells h final))
       in Inr (final, h))"

text \<open>The store holds the arrays of the renderer state \<open>st\<close> at allocated addresses.\<close>

definition represents :: "heap \<Rightarrow> renderer_object \<Rightarrow> GravitationalLensingAnimation \<Rightarrow> bool" where
  "represents h self st \<longleftrightarrow>
     view h self = st \<and> X_ref self < fresh h \<and> Y_ref self < fresh h \<and> R_ref self < fresh h
     \<and> background_ref self < fresh h"

section \<open>Notions used to state the properties\<close>

text \<open>The array whose cell \<open>(i, j)\<close> is \<open>g i j\<close>, for \<open>i, j < n\<close>.\<close>

definition grid :: "nat \<Rightarrow> (nat \<Rightarrow> nat \<Rightarrow> npfloat) \<Rightarrow> ndarray" where
  "grid n g = map (\<lambda>i. map (\<lambda>j. g i j) [0..<n]) [0..<n]"

text \<open>The \<open>k\<close>-th sample of \<open>np.linspace(-8, 8, n)\<close>.\<close>

definition coord :: "int \<Rightarrow> nat \<Rightarrow> real" where
  "coord n k = (if n \<le> 1 then - 8 else real k * (16 / real_of_int (n - 1)) + (- 8))"

text \<open>The length of a vector of two NumPy floats.\<close>

definition magnitude :: "npfloat \<times> npfloat \<Rightarrow> npfloat" where
  "magnitude d = np_sqrt (np_add (np_power (fst d) 2) (np_power (snd d) 2))"

text \<open>
  The index \<open>int((u + 8) * grid_size / 16)\<close> of the loop body, at a finite \<open>u\<close>.
\<close>

definition trunc_index :: "int \<Rightarrow> real \<Rightarrow> int" where
  "trunc_index n u = (let t = (u + 8) * real_of_int n / 16 in if 0 \<le> t then \<lfloor>t\<rfloor> else \<lceil>t\<rceil>)"

text \<open>
  What the loop body of \<open>calculate_lensed_image\<close> leaves in a cell: the source position
  \<open>(sx, sy)\<close>, the radius \<open>r\<close>, and \<open>old\<close>, the cell's value before the body runs.
\<close>

definition lensed_value ::
  "GravitationalLensingAnimation \<Rightarrow> npfloat \<Rightarrow> npfloat \<Rightarrow> npfloat \<Rightarrow> npfloat \<Rightarrow> npfloat" where
  "lensed_value self sx sy r old =
     (if np_less r (Fin (rs (black_hole self) * (11/10))) then Fin 0
      else case (sx, sy) of
        (Fin u, Fin v) \<Rightarrow>
          if \<bar>u\<bar> < 8 \<and> \<bar>v\<bar> < 8 then
            (let grid_x = trunc_index (grid_size self) u; grid_y = trunc_index (grid_size self) v
             in if 0 \<le> grid_x \<and> grid_x < grid_size self \<and> 0 \<le> grid_y \<and> grid_y < grid_size self
                then background self ! nat grid_y ! nat grid_x else old)
          else old
      | _ \<Rightarrow> old)"

text \<open>The background texture as the specification writes it.\<close>

definition background_formula :: "real \<Rightarrow> real \<Rightarrow> real" where
  "background_formula x y =
     (let r = sqrt (x\<^sup>2 + y\<^sup>2)
      in 0.5 + 0.3 * sin (8 * x) * sin (8 * y) + 0.2 * sin (5.6 * x) * cos (10.4 * y)
           + 0.2 * sin (2 * r) * exp (- r / 10))"

text \<open>
  Cell by cell, on finite coordinates: the source position that \<open>calculate_lensed_image\<close>
  computes, and the cells of \<open>apply_relativistic_effects\<close> and of
  \<open>create_photon_sphere_glow\<close>.
\<close>

definition source_point :: "BlackHolePhysics \<Rightarrow> real \<Rightarrow> real \<Rightarrow> real \<Rightarrow> real \<times> real" where
  "source_point bh x y rotation_angle =
     (let r = max (sqrt (x\<^sup>2 + y\<^sup>2)) (1/10);
          dx = - (4 * M bh / r) * (y / r);
          dy = 4 * M bh / r * (x / r)
      in (x + (dx * cos rotation_angle - dy * sin rotation_angle),
          y + (dx * sin rotation_angle + dy * cos rotation_angle)))"

definition relativistic_value ::
  "BlackHolePhysics \<Rightarrow> npfloat \<Rightarrow> npfloat \<Rightarrow> npfloat \<Rightarrow> npfloat \<Rightarrow> real \<Rightarrow> npfloat" where
  "relativistic_value bh v x y r rotation_angle =
     np_clip
       (np_mul (np_mul (np_mul v (fst (schwarzschild_metric_effects bh r)))
                       (doppler_shift bh x y rotation_angle))
               (if np_greater r (Fin (rs bh))
                then np_add (Fin 1) (np_div (Fin (2 * M bh)) (np_power r 2))
                else Fin 1))
       (Fin 0) (Fin 2)"

definition glow_value :: "BlackHolePhysics \<Rightarrow> npfloat \<Rightarrow> npfloat \<Rightarrow> npfloat \<Rightarrow> real \<Rightarrow> npfloat" where
  "glow_value bh x y r rotation_angle =
     np_mul
       (np_mul (np_exp (np_div (np_neg (np_power (np_abs (np_sub r (Fin (3/2 * rs bh)))) 2)) (Fin (1/2))))
               (Fin 2))
       (np_add (Fin 1)
          (np_mul (Fin (1/2))
             (np_sin (np_add (np_mul (Fin 3) (np_arctan2 y x)) (Fin (rotation_angle * 4))))))"

text \<open>
  The sum of the relativistic image and the glow that \<open>animate\<close> forms before it blanks
  the horizon, and single cells of the frames of a renderer built with grid size \<open>n\<close>,
  at frame number \<open>frame\<close>.
\<close>

definition unmasked_image :: "GravitationalLensingAnimation \<Rightarrow> real \<Rightarrow> error + ndarray" where
  "unmasked_image lensing_sim rotation_angle =
     ebind (calculate_lensed_image lensing_sim rotation_angle) (\<lambda>lensed_image.
       Inr (arr_map2 np_add
              (apply_relativistic_effects lensing_sim lensed_image rotation_angle)
              (create_photon_sphere_glow lensing_sim rotation_angle)))"

definition frame_cell :: "int \<Rightarrow> int \<Rightarrow> nat \<Rightarrow> nat \<Rightarrow> error + npfloat" where
  "frame_cell n frame i j =
     ebind (GravitationalLensingAnimation_init n) (\<lambda>lensing_sim.
     ebind (animate lensing_sim frame) (\<lambda>final.
       get2 final (int i) (int j)))"

definition unmasked_cell :: "int \<Rightarrow> int \<Rightarrow> nat \<Rightarrow> nat \<Rightarrow> error + npfloat" where
  "unmasked_cell n frame i j =
     ebind (GravitationalLensingAnimation_init n) (\<lambda>lensing_sim.
     ebind (unmasked_image lensing_sim (real_of_int frame * (5/100))) (\<lambda>final.
       get2 final (int i) (int j)))"

text \<open>The store \<open>h'\<close> keeps every array that \<open>h\<close> has allocated.\<close>

definition extends :: "heap \<Rightarrow> heap \<Rightarrow> bool" where
  "extends h h' \<longleftrightarrow> fresh h \<le> fresh h' \<and> (\<forall>p<fresh h. cells h' p = cells h p)"

text \<open>The store before anything is allocated.\<close>

definition empty_heap :: heap where
  "empty_heap = \<lparr>cells = (\<lambda>p. []), fresh = 0\<rparr>"

section \<open>Arithmetic on finite values\<close>

lemma np_sub_Fin [simp]: "np_sub (Fin u) (Fin v) = Fin (u - v)"
  by (simp add: np_sub_def)

lemma np_maximum_Fin [simp]: "np_maximum (Fin u) (Fin v) = Fin (max u v)"
  by (simp add: np_maximum_def max_def)

lemma np_minimum_Fin [simp]: "np_minimum (Fin u) (Fin v) = Fin (min u v)"
  by (simp add: np_minimum_def min_def)

lemma np_clip_Fin [simp]: "np_clip (Fin u) (Fin lo) (Fin hi) = Fin (min (max u lo) hi)"
  by (simp add: np_clip_def)

lemma np_clip_PInf [simp]: "np_clip PInf (Fin lo) (Fin hi) = Fin hi"
  by (simp add: np_clip_def np_maximum_def np_minimum_def)

lemma np_clip_NInf [simp]: "lo \<le> hi \<Longrightarrow> np_clip NInf (Fin lo) (Fin hi) = Fin lo"
  by (simp add: np_clip_def np_maximum_def np_minimum_def)

lemma np_clip_NaN [simp]: "np_clip NaN lo hi = NaN"
  by (simp add: np_clip_def np_maximum_def np_minimum_def)

lemma np_clip_range:
  assumes "lo \<le> hi" "u \<noteq> NaN"
  shows "\<exists>w. np_clip u (Fin lo) (Fin hi) = Fin w \<and> lo \<le> w \<and> w \<le> hi"
  using assms by (cases u) auto

lemma np_mul_NaN_right [simp]: "np_mul u NaN = NaN"
  by (cases u) simp_all

lemma sme_Fin:
  assumes "0 < r"
  shows "schwarzschild_metric_effects self (Fin r) =
           (Fin (sqrt (max (1 - rs self / r) (1/100))), Fin (1 / max (1 - rs self / r) (1/100)))"
proof -
  have "0 < max (1 - rs self / r) (1/100)" by (simp add: less_max_iff_disj)
  then show ?thesis using assms
    by (simp add: schwarzschild_metric_effects_def Let_def less_imp_le)
qed

lemma gl_Fin:
  "gravitational_lensing self (Fin x) (Fin y) =
     (let r = max (sqrt (x\<^sup>2 + y\<^sup>2)) (1/10)
      in (Fin (- (4 * M self / r) * (y / r)), Fin (4 * M self / r * (x / r))))"
proof -
  have "0 < max (sqrt (x\<^sup>2 + y\<^sup>2)) (1/10)" by (simp add: less_max_iff_disj)
  then have "max (sqrt (x\<^sup>2 + y\<^sup>2)) (1/10) \<noteq> 0" by simp
  then show ?thesis
    by (simp add: gravitational_lensing_def Let_def)
qed

lemma doppler_Fin_range:
  assumes "x \<noteq> 0 \<or> y \<noteq> 0"
  shows "\<exists>w. doppler_shift self (Fin x) (Fin y) rot = Fin w \<and> 3/10 \<le> w \<and> w \<le> 2"
proof -
  let ?r = "sqrt (x\<^sup>2 + y\<^sup>2)"
  have rpos: "0 < ?r" using assms by (auto simp: sum_power2_gt_zero_iff)
  have den: "?r ^ 3 + (a self)\<^sup>2 * ?r > 0"
    using rpos by (simp add: add_pos_nonneg)
  obtain q where q: "np_div (Fin 1) (np_add (Fin 1) (np_mul (np_mul (np_div (Fin (2 * M self * a self))
                         (np_add (np_power (Fin ?r) 3) (np_mul (Fin ((a self)\<^sup>2)) (Fin ?r)))) (Fin ?r)) (np_sin (np_add (np_arctan2 (Fin y) (Fin x)) (Fin rot))))) = q" by simp
  have "q \<noteq> NaN" using q den by (auto simp: signed_inf_def split: if_splits)
  from np_clip_range[OF _ this, of "3/10" 2] q show ?thesis
    by (simp add: doppler_shift_def Let_def)
qed

lemma doppler_origin: "doppler_shift bh (Fin 0) (Fin 0) rot = NaN"
  by (simp add: doppler_shift_def np_clip_def np_minimum_def np_maximum_def signed_inf_def)

section \<open>Arrays given cell by cell\<close>

lemma length_grid [simp]: "length (grid n g) = n"
  by (simp add: grid_def)

lemma length_grid_row [simp]: "i < n \<Longrightarrow> length (grid n g ! i) = n"
  by (simp add: grid_def)

lemma nth_grid [simp]: "i < n \<Longrightarrow> j < n \<Longrightarrow> grid n g ! i ! j = g i j"
  by (simp add: grid_def)

lemma arr_map_grid [simp]: "arr_map f (grid n g) = grid n (\<lambda>i j. f (g i j))"
  by (simp add: arr_map_def grid_def)

lemma map2_same: "map2 f (map p xs) (map q xs) = map (\<lambda>k. f (p k) (q k)) xs"
  by (induction xs) simp_all

lemma arr_map2_grid [simp]:
  "arr_map2 f (grid n g) (grid n h) = grid n (\<lambda>i j. f (g i j) (h i j))"
  by (simp add: arr_map2_def grid_def map2_same)

lemma grid_cong: "(\<And>i j. i < n \<Longrightarrow> j < n \<Longrightarrow> g i j = h i j) \<Longrightarrow> grid n g = grid n h"
  by (simp add: grid_def)

lemma mult_div_cancel_real: "d \<noteq> 0 \<Longrightarrow> d * (e / d) = (e::real)"
  by simp

lemma linspace_coord:
  assumes "0 \<le> n"
  shows "linspace (- 8) 8 n = Inr (map (\<lambda>k. Fin (coord n k)) [0..<nat n])"
proof (cases "n \<le> 1")
  case True
  then show ?thesis using assms by (simp add: linspace_def coord_def)
next
  case False
  let ?ys = "map (\<lambda>k. Fin (coord n k)) [0..<nat n]"
  have "real (nat n - 1) = real_of_int n - 1"
    using False by (simp add: of_nat_diff)
  moreover have "(real_of_int n - 1) * (16 / (real_of_int n - 1)) = 16"
  proof -
    have "real_of_int n - 1 \<noteq> 0" using False by simp
    then show ?thesis by (rule mult_div_cancel_real)
  qed
  ultimately have last: "coord n (nat n - 1) = 8"
    using False by (simp add: coord_def del: times_divide_eq_right)
  then have last': "coord n (nat n - Suc 0) = 8" by simp
  have "?ys[nat n - 1 := Fin 8] = ?ys"
    using False by (intro nth_equalityI) (auto simp: nth_list_update last')
  then show ?thesis using False assms
    by (simp add: linspace_def coord_def Let_def)
qed

lemma linspace_neg: "n < 0 \<Longrightarrow> linspace lo hi n = Inl ValueError"
  by (simp add: linspace_def)

lemma meshgrid_coord:
  "meshgrid (map (\<lambda>k. Fin (p k)) [0..<n]) (map (\<lambda>k. Fin (p k)) [0..<n]) =
     (grid n (\<lambda>i j. Fin (p j)), grid n (\<lambda>i j. Fin (p i)))"
  by (simp add: meshgrid_def grid_def comp_def)

lemma setup_coordinates_grid:
  assumes "0 \<le> grid_size self"
  shows "setup_coordinates self =
     Inr (self\<lparr>X := grid (nat (grid_size self)) (\<lambda>i j. Fin (coord (grid_size self) j)),
               Y := grid (nat (grid_size self)) (\<lambda>i j. Fin (coord (grid_size self) i)),
               R := grid (nat (grid_size self))
                      (\<lambda>i j. Fin (sqrt ((coord (grid_size self) j)\<^sup>2 + (coord (grid_size self) i)\<^sup>2)))\<rparr>)"
  using assms
  by (simp add: setup_coordinates_def Let_def linspace_coord ebind_def meshgrid_coord radius_array_def)

section \<open>Indexing and the pixel loop\<close>

lemma py_index_in [simp]: "i < n \<Longrightarrow> py_index n (int i) = Inr i"
  by (simp add: py_index_def)

lemma get2_grid [simp]: "i < n \<Longrightarrow> j < n \<Longrightarrow> get2 (grid n g) (int i) (int j) = Inr (g i j)"
  by (simp add: get2_def ebind_def)

lemma grid_update:
  assumes "i < n" "j < n"
  shows "(grid n g)[i := (grid n g ! i)[j := v]] = grid n (g(i := (g i)(j := v)))"
proof (rule nth_equalityI)
  show "length ((grid n g)[i := (grid n g ! i)[j := v]]) = length (grid n (g(i := (g i)(j := v))))"
    by simp
next
  fix k assume "k < length ((grid n g)[i := (grid n g ! i)[j := v]])"
  then have k: "k < n" by simp
  show "(grid n g)[i := (grid n g ! i)[j := v]] ! k = grid n (g(i := (g i)(j := v))) ! k"
  proof (cases "k = i")
    case True
    have "(grid n g ! i)[j := v] = map (\<lambda>l. ((g i)(j := v)) l) [0..<n]"
      using assms by (intro nth_equalityI) (auto simp: grid_def nth_list_update)
    then show ?thesis using True assms by (simp add: grid_def)
  next
    case False
    then show ?thesis using k assms by (simp add: grid_def)
  qed
qed

lemma set2_grid [simp]:
  "i < n \<Longrightarrow> j < n \<Longrightarrow> set2 (grid n g) (int i) (int j) v = Inr (grid n (g(i := (g i)(j := v))))"
  by (simp add: set2_def ebind_def grid_update)

lemma np_less_abs_Fin: "np_less (np_abs s) (Fin b) \<longleftrightarrow> (\<exists>u. s = Fin u \<and> \<bar>u\<bar> < b)"
  by (cases s) auto

lemma get2_nat:
  "0 \<le> p \<Longrightarrow> p < int n \<Longrightarrow> 0 \<le> q \<Longrightarrow> q < int n \<Longrightarrow> get2 (grid n g) p q = Inr (grid n g ! nat p ! nat q)"
  using get2_grid[of "nat p" n "nat q" g] by simp

lemma lens_pixel_grid:
  assumes "i < n" "j < n" "grid_size self = int n"
    and "R self = grid n rf" "background self = grid n bf"
  shows "lens_pixel self (grid n sxf) (grid n syf) (int i) (int j) (grid n g) =
           Inr (grid n (g(i := (g i)(j := lensed_value self (sxf i j) (syf i j) (rf i j) (g i j)))))"
proof -
  have keep: "grid n (g(i := (g i)(j := g i j))) = grid n g"
    by (rule grid_cong) simp
  show ?thesis
  proof (cases "np_less (rf i j) (Fin (rs (black_hole self) * (11/10)))")
    case True
    then show ?thesis using assms
      by (simp add: lens_pixel_def ebind_def lensed_value_def)
  next
    case False
    show ?thesis
    proof (cases "np_less (np_abs (sxf i j)) (Fin 8) \<and> np_less (np_abs (syf i j)) (Fin 8)")
      case True
      then obtain u v where uv: "sxf i j = Fin u" "\<bar>u\<bar> < 8" "syf i j = Fin v" "\<bar>v\<bar> < 8"
        by (auto simp: np_less_abs_Fin)
      have "0 \<le> (u + 8) * real n / 16" "0 \<le> (v + 8) * real n / 16"
        using uv by simp_all
      then show ?thesis using assms False uv keep
        by (simp add: lens_pixel_def background_lookup_def ebind_def lensed_value_def trunc_index_def
              Let_def get2_nat)
    next
      case False2: False
      then have "lensed_value self (sxf i j) (syf i j) (rf i j) (g i j) = g i j"
        using False by (auto simp: lensed_value_def np_less_abs_Fin split: npfloat.splits)
      moreover have "(if np_less (np_abs (sxf i j)) (Fin 8) \<and> np_less (np_abs (syf i j)) (Fin 8)
                      then p else q) = q" for p q :: "error + ndarray"
        by (rule if_not_P[OF False2])
      ultimately show ?thesis using assms False keep
        by (simp add: lens_pixel_def ebind_def)
    qed
  qed
qed

lemma for_each_fold:
  assumes "\<And>k g. k \<in> set ks \<Longrightarrow> body k (G g) = Inr (G (step k g))"
  shows "for_each ks body (G g) = Inr (G (fold step ks g))"
  using assms by (induction ks arbitrary: g) (simp_all add: ebind_def)

lemma fold_at:
  "fold (\<lambda>j g. g(i := S j (g i))) js g = g(i := fold S js (g i))"
  by (induction js arbitrary: g) simp_all

lemma fold_pointwise:
  "fold (\<lambda>k f. f(k := H k (f k))) [0..<m] f = (\<lambda>k. if k < m then H k (f k) else f k)"
proof (induction m)
  case 0
  then show ?case by simp
next
  case (Suc m)
  then show ?case by (auto simp: fun_eq_iff)
qed

lemma loops_grid:
  assumes "\<And>i j g. i < n \<Longrightarrow> j < n \<Longrightarrow> body i j (G g) = Inr (G (g(i := (g i)(j := F i j (g i j)))))"
  shows "for_each [0..<n] (\<lambda>i. for_each [0..<n] (\<lambda>j. body i j)) (G g) =
           Inr (G (\<lambda>i. if i < n then (\<lambda>j. if j < n then F i j (g i j) else g i j) else g i))"
proof -
  let ?S = "\<lambda>i j row. row(j := F i j (row j))"
  let ?H = "\<lambda>i row. (\<lambda>j. if j < n then F i j (row j) else row j)"
  have row: "for_each [0..<n] (\<lambda>j. body i j) (G g) = Inr (G (g(i := ?H i (g i))))" if "i < n" for i g
  proof -
    have "for_each [0..<n] (\<lambda>j. body i j) (G g) =
            Inr (G (fold (\<lambda>j g. g(i := ?S i j (g i))) [0..<n] g))"
      by (rule for_each_fold[where G = G and step = "\<lambda>j g. g(i := ?S i j (g i))"])
         (use assms that in simp)
    also have "fold (\<lambda>j g. g(i := ?S i j (g i))) [0..<n] g = g(i := fold (?S i) [0..<n] (g i))"
      by (rule fold_at)
    also have "fold (?S i) [0..<n] (g i) = ?H i (g i)"
      by (rule fold_pointwise)
    finally show ?thesis .
  qed
  have "for_each [0..<n] (\<lambda>i. for_each [0..<n] (\<lambda>j. body i j)) (G g) =
          Inr (G (fold (\<lambda>i g. g(i := ?H i (g i))) [0..<n] g))"
    by (rule for_each_fold[where G = G and step = "\<lambda>i g. g(i := ?H i (g i))"])
       (use row in simp)
  also have "fold (\<lambda>i g. g(i := ?H i (g i))) [0..<n] g = (\<lambda>i. if i < n then ?H i (g i) else g i)"
    by (rule fold_pointwise)
  finally show ?thesis .
qed

lemma lens_loops:
  assumes "grid_size self = int n" "R self = grid n rf" "background self = grid n bf"
  shows "for_each [0..<n] (\<lambda>i. for_each [0..<n] (\<lambda>j. lens_pixel self (grid n sxf) (grid n syf) (int i) (int j)))
           (grid n g) =
         Inr (grid n (\<lambda>i j. lensed_value self (sxf i j) (syf i j) (rf i j) (g i j)))"
proof -
  let ?F = "\<lambda>i j old. lensed_value self (sxf i j) (syf i j) (rf i j) old"
  have "for_each [0..<n] (\<lambda>i. for_each [0..<n] (\<lambda>j. lens_pixel self (grid n sxf) (grid n syf) (int i) (int j)))
           (grid n g) =
        Inr (grid n (\<lambda>i. if i < n then (\<lambda>j. if j < n then ?F i j (g i j) else g i j) else g i))"
    by (rule loops_grid[where G = "grid n" and F = ?F]) (use assms in \<open>simp add: lens_pixel_grid\<close>)
  also have "grid n (\<lambda>i. if i < n then (\<lambda>j. if j < n then ?F i j (g i j) else g i j) else g i) =
             grid n (\<lambda>i j. ?F i j (g i j))"
    by (rule grid_cong) simp
  finally show ?thesis .
qed

section \<open>The constructor\<close>

lemma init_neg: "n < 0 \<Longrightarrow> GravitationalLensingAnimation_init n = Inl ValueError"
  by (simp add: GravitationalLensingAnimation_init_def BlackHolePhysics_init_def ebind_def
      setup_coordinates_def linspace_neg)

lemma init_fields:
  assumes "GravitationalLensingAnimation_init n = Inr self"
  shows "0 \<le> n"
    and "grid_size self = n"
    and "black_hole self = \<lparr>M = 2, a = 8/5, rs = 4, c = 1\<rparr>"
    and "X self = grid (nat n) (\<lambda>i j. Fin (coord n j))"
    and "Y self = grid (nat n) (\<lambda>i j. Fin (coord n i))"
    and "R self = grid (nat n) (\<lambda>i j. Fin (sqrt ((coord n j)\<^sup>2 + (coord n i)\<^sup>2)))"
    and "background self = grid (nat n) (\<lambda>i j. Fin (background_formula (coord n j) (coord n i)))"
proof -
  show n: "0 \<le> n"
    using assms init_neg[of n] by (cases "n < 0") simp_all
  let ?s0 = "\<lparr>black_hole = \<lparr>M = 2, a = 8/5, rs = 4, c = 1\<rparr>, grid_size = n,
               X = [], Y = [], R = [], background = []\<rparr>"
  have self: "self = create_background_pattern
      (?s0\<lparr>X := grid (nat n) (\<lambda>i j. Fin (coord n j)),
            Y := grid (nat n) (\<lambda>i j. Fin (coord n i)),
            R := grid (nat n) (\<lambda>i j. Fin (sqrt ((coord n j)\<^sup>2 + (coord n i)\<^sup>2)))\<rparr>)"
    using assms n setup_coordinates_grid[of ?s0]
    by (simp add: GravitationalLensingAnimation_init_def BlackHolePhysics_init_def ebind_def)
  show "grid_size self = n" "black_hole self = \<lparr>M = 2, a = 8/5, rs = 4, c = 1\<rparr>"
    "X self = grid (nat n) (\<lambda>i j. Fin (coord n j))"
    "Y self = grid (nat n) (\<lambda>i j. Fin (coord n i))"
    "R self = grid (nat n) (\<lambda>i j. Fin (sqrt ((coord n j)\<^sup>2 + (coord n i)\<^sup>2)))"
    by (simp_all add: self create_background_pattern_def Let_def)
  show "background self = grid (nat n) (\<lambda>i j. Fin (background_formula (coord n j) (coord n i)))"
    unfolding self create_background_pattern_def background_base_def radial_pattern_def Let_def
    by (simp add: background_formula_def Let_def mult_ac)
qed

lemma init_ok:
  assumes "0 \<le> n"
  shows "\<exists>self. GravitationalLensingAnimation_init n = Inr self"
  using assms setup_coordinates_grid[of "\<lparr>black_hole = \<lparr>M = 2, a = 8/5, rs = 4, c = 1\<rparr>, grid_size = n,
               X = [], Y = [], R = [], background = []\<rparr>"]
  by (simp add: GravitationalLensingAnimation_init_def BlackHolePhysics_init_def ebind_def)

lemma init_projr:
  "0 \<le> n \<Longrightarrow> GravitationalLensingAnimation_init n = Inr (projr (GravitationalLensingAnimation_init n))"
  using init_ok[of n] by auto

section \<open>The stages of a frame, cell by cell\<close>

lemma source_positions_grid:
  assumes "GravitationalLensingAnimation_init n = Inr self"
  shows "source_positions self rot =
     (grid (nat n) (\<lambda>i j. Fin (fst (source_point (black_hole self) (coord n j) (coord n i) rot))),
      grid (nat n) (\<lambda>i j. Fin (snd (source_point (black_hole self) (coord n j) (coord n i) rot))))"
  unfolding source_positions_def Let_def init_fields(4,5)[OF assms]
  by (simp add: gl_Fin Let_def source_point_def)

lemma calculate_lensed_image_grid:
  assumes "GravitationalLensingAnimation_init n = Inr self"
  shows "calculate_lensed_image self rot =
     Inr (grid (nat n) (\<lambda>i j.
            lensed_value self
              (Fin (fst (source_point (black_hole self) (coord n j) (coord n i) rot)))
              (Fin (snd (source_point (black_hole self) (coord n j) (coord n i) rot)))
              (Fin (sqrt ((coord n j)\<^sup>2 + (coord n i)\<^sup>2))) (Fin 0)))"
proof -
  have gs: "grid_size self = int (nat n)"
    using init_fields(1,2)[OF assms] by simp
  show ?thesis
    unfolding calculate_lensed_image_def Let_def source_positions_grid[OF assms] prod.case
      init_fields(4)[OF assms] arr_map_grid gs nat_int
    by (rule lens_loops[OF gs init_fields(6,7)[OF assms]])
qed

lemma apply_relativistic_effects_grid:
  assumes "GravitationalLensingAnimation_init n = Inr self"
  shows "apply_relativistic_effects self (grid (nat n) g) rot =
     grid (nat n) (\<lambda>i j.
       relativistic_value (black_hole self) (g i j) (Fin (coord n j)) (Fin (coord n i))
         (Fin (sqrt ((coord n j)\<^sup>2 + (coord n i)\<^sup>2))) rot)"
  unfolding apply_relativistic_effects_def relativistic_product_def brightening_def Let_def
    init_fields(4,5,6)[OF assms]
  by (simp add: relativistic_value_def)

lemma create_photon_sphere_glow_grid:
  assumes "GravitationalLensingAnimation_init n = Inr self"
  shows "create_photon_sphere_glow self rot =
     grid (nat n) (\<lambda>i j.
       glow_value (black_hole self) (Fin (coord n j)) (Fin (coord n i))
         (Fin (sqrt ((coord n j)\<^sup>2 + (coord n i)\<^sup>2))) rot)"
  unfolding create_photon_sphere_glow_def Let_def init_fields(4,5,6)[OF assms]
  by (simp add: glow_value_def del: np_sub_Fin np_abs.simps np_power.simps np_neg.simps np_div.simps
        np_exp.simps np_mul.simps np_arctan2.simps np_add.simps np_sin.simps)

lemma final_image_grid:
  assumes "GravitationalLensingAnimation_init n = Inr self"
  shows "final_image self rot =
     Inr (grid (nat n) (\<lambda>i j.
       if sqrt ((coord n j)\<^sup>2 + (coord n i)\<^sup>2) \<le> 4 then Fin 0
       else np_add
         (relativistic_value (black_hole self)
            (lensed_value self
              (Fin (fst (source_point (black_hole self) (coord n j) (coord n i) rot)))
              (Fin (snd (source_point (black_hole self) (coord n j) (coord n i) rot)))
              (Fin (sqrt ((coord n j)\<^sup>2 + (coord n i)\<^sup>2))) (Fin 0))
            (Fin (coord n j)) (Fin (coord n i))
            (Fin (sqrt ((coord n j)\<^sup>2 + (coord n i)\<^sup>2))) rot)
         (glow_value (black_hole self) (Fin (coord n j)) (Fin (coord n i))
            (Fin (sqrt ((coord n j)\<^sup>2 + (coord n i)\<^sup>2))) rot)))"
  unfolding final_image_def Let_def calculate_lensed_image_grid[OF assms] ebind_def sum.case
    apply_relativistic_effects_grid[OF assms] create_photon_sphere_glow_grid[OF assms]
    arr_map2_grid init_fields(6)[OF assms]
  by (simp add: init_fields(3)[OF assms])

lemma final_image_unmasked:
  "final_image lensing_sim rot =
     ebind (unmasked_image lensing_sim rot) (\<lambda>final.
       Inr (arr_map2 (\<lambda>r u. if np_le r (Fin (rs (black_hole lensing_sim))) then Fin 0 else u)
              (R lensing_sim) final))"
  by (simp add: final_image_def unmasked_image_def ebind_def Let_def split: sum.splits)

lemma get2_final:
  assumes "GravitationalLensingAnimation_init n = Inr self" "i < nat n" "j < nat n"
    and "final_image self rot = Inr img"
  shows "get2 img (int i) (int j) = Inr (img ! i ! j)"
  using assms(2,3,4) unfolding final_image_grid[OF assms(1)] by auto

section \<open>Ranges of the cell values\<close>

lemma glow_value_Fin:
  "glow_value bh (Fin x) (Fin y) (Fin r) rot =
     Fin (exp (- (\<bar>r - 3/2 * rs bh\<bar>\<^sup>2) / (1/2)) * 2 * (1 + 1/2 * sin (3 * arctan2 y x + rot * 4)))"
  by (simp add: glow_value_def)

lemma ring_product_range:
  fixes e t :: real
  assumes "0 < e" "e \<le> 1" "1/2 \<le> t" "t \<le> 3/2"
  shows "0 < e * 2 * t" "e * 2 * t \<le> 3"
proof -
  have t: "0 < t" using assms(3) by linarith
  show "0 < e * 2 * t"
    using assms(1) t by simp
  have "e * t \<le> 1 * t"
    using assms(2) t by (intro mult_right_mono) simp_all
  then show "e * 2 * t \<le> 3" using assms(4) by simp
qed

lemma glow_value_range:
  "\<exists>w. glow_value bh (Fin x) (Fin y) (Fin r) rot = Fin w \<and> 0 < w \<and> w \<le> 3"
proof -
  let ?e = "exp (- (\<bar>r - 3/2 * rs bh\<bar>\<^sup>2) / (1/2))"
  let ?s = "sin (3 * arctan2 y x + rot * 4)"
  have e: "0 < ?e" "?e \<le> 1" by simp_all
  have "- 1 \<le> ?s" "?s \<le> 1" by simp_all
  then have t: "1/2 \<le> 1 + 1/2 * ?s" "1 + 1/2 * ?s \<le> 3/2" by linarith+
  from ring_product_range[OF e t] show ?thesis
    unfolding glow_value_Fin by blast
qed

lemma brightening_Fin:
  assumes "0 < r"
  shows "\<exists>b. (if np_greater (Fin r) (Fin q)
                then np_add (Fin 1) (np_div (Fin m) (np_power (Fin r) 2))
                else Fin 1) = Fin b"
proof -
  have "r\<^sup>2 \<noteq> 0" using assms by simp
  then show ?thesis by simp
qed

lemma relativistic_value_range:
  assumes "x \<noteq> 0 \<or> y \<noteq> 0"
  shows "\<exists>w. relativistic_value bh (Fin v) (Fin x) (Fin y) (Fin (sqrt (x\<^sup>2 + y\<^sup>2))) rot = Fin w
             \<and> 0 \<le> w \<and> w \<le> 2"
proof -
  define r where "r = sqrt (x\<^sup>2 + y\<^sup>2)"
  have rpos: "0 < r" using assms by (auto simp: r_def sum_power2_gt_zero_iff)
  obtain d where d: "doppler_shift bh (Fin x) (Fin y) rot = Fin d"
    using doppler_Fin_range[OF assms] by blast
  obtain b where b: "(if np_greater (Fin r) (Fin (rs bh))
                then np_add (Fin 1) (np_div (Fin (2 * M bh)) (np_power (Fin r) 2))
                else Fin 1) = Fin b"
    using brightening_Fin[OF rpos] by blast
  have "relativistic_value bh (Fin v) (Fin x) (Fin y) (Fin r) rot =
          np_clip (Fin (v * sqrt (max (1 - rs bh / r) (1/100)) * d * b)) (Fin 0) (Fin 2)"
    unfolding relativistic_value_def b d sme_Fin[OF rpos] by simp
  then show ?thesis unfolding r_def by simp
qed

lemma relativistic_value_origin:
  "relativistic_value bh v (Fin 0) (Fin 0) r rot = NaN"
  by (simp add: relativistic_value_def doppler_origin)

lemma lensed_value_Fin:
  assumes "GravitationalLensingAnimation_init n = Inr self"
  shows "\<exists>v. lensed_value self (Fin sx) (Fin sy) r (Fin 0) = Fin v"
proof -
  have "\<exists>v. background self ! nat gy ! nat gx = Fin v"
    if "0 \<le> gx" "gx < n" "0 \<le> gy" "gy < n" for gx gy
    using that by (simp add: init_fields(7)[OF assms])
  then show ?thesis
    by (auto simp: lensed_value_def Let_def init_fields(2)[OF assms])
qed

lemma lensed_value_horizon:
  "np_less r (Fin (rs (black_hole self) * (11/10))) \<Longrightarrow> lensed_value self sx sy r old = Fin 0"
  by (simp add: lensed_value_def)


lemma final_cell:
  assumes init: "GravitationalLensingAnimation_init n = Inr self" and ij: "i < nat n" "j < nat n"
  shows "\<exists>lensed img w.
           calculate_lensed_image self rot = Inr lensed \<and> final_image self rot = Inr img
         \<and> create_photon_sphere_glow self rot ! i ! j = Fin w \<and> 0 < w \<and> w \<le> 3
         \<and> (np_less (R self ! i ! j) (Fin (rs (black_hole self) * (11/10))) \<longrightarrow> lensed ! i ! j = Fin 0)
         \<and> (np_le (R self ! i ! j) (Fin (rs (black_hole self))) \<longrightarrow> img ! i ! j = Fin 0)
         \<and> (\<not> np_le (R self ! i ! j) (Fin (rs (black_hole self))) \<longrightarrow>
              (\<exists>u. apply_relativistic_effects self lensed rot ! i ! j = Fin u \<and> 0 \<le> u \<and> u \<le> 2
                   \<and> img ! i ! j = Fin (u + w)))"
proof -
  define x where "x = coord n j"
  define y where "y = coord n i"
  define sp where "sp = source_point (black_hole self) x y rot"
  define lv where "lv = lensed_value self (Fin (fst sp)) (Fin (snd sp)) (Fin (sqrt (x\<^sup>2 + y\<^sup>2))) (Fin 0)"
  obtain v where v: "lv = Fin v"
    unfolding lv_def using lensed_value_Fin[OF init] by blast
  obtain w where w: "glow_value (black_hole self) (Fin x) (Fin y) (Fin (sqrt (x\<^sup>2 + y\<^sup>2))) rot = Fin w"
    "0 < w" "w \<le> 3"
    using glow_value_range by blast
  have Rc: "R self ! i ! j = Fin (sqrt (x\<^sup>2 + y\<^sup>2))"
    using ij by (simp add: init_fields(6)[OF init] x_def y_def)
  have bh: "rs (black_hole self) = 4"
    by (simp add: init_fields(3)[OF init])
  let ?lensed = "grid (nat n) (\<lambda>i j.
            lensed_value self
              (Fin (fst (source_point (black_hole self) (coord n j) (coord n i) rot)))
              (Fin (snd (source_point (black_hole self) (coord n j) (coord n i) rot)))
              (Fin (sqrt ((coord n j)\<^sup>2 + (coord n i)\<^sup>2))) (Fin 0))"
  have cl: "calculate_lensed_image self rot = Inr ?lensed"
    by (rule calculate_lensed_image_grid[OF init])
  have lc: "?lensed ! i ! j = lv"
    using ij by (simp add: lv_def sp_def x_def y_def)
  obtain img where img: "final_image self rot = Inr img"
    and ic: "img ! i ! j = (if sqrt (x\<^sup>2 + y\<^sup>2) \<le> 4 then Fin 0
        else np_add (relativistic_value (black_hole self) lv (Fin x) (Fin y) (Fin (sqrt (x\<^sup>2 + y\<^sup>2))) rot)
                    (glow_value (black_hole self) (Fin x) (Fin y) (Fin (sqrt (x\<^sup>2 + y\<^sup>2))) rot))"
    using ij by (simp add: final_image_grid[OF init] lv_def sp_def x_def y_def)
  have gc: "create_photon_sphere_glow self rot ! i ! j = Fin w"
    using ij w(1) by (simp add: create_photon_sphere_glow_grid[OF init] x_def y_def)
  have rc: "apply_relativistic_effects self ?lensed rot ! i ! j =
              relativistic_value (black_hole self) lv (Fin x) (Fin y) (Fin (sqrt (x\<^sup>2 + y\<^sup>2))) rot"
    using ij unfolding apply_relativistic_effects_grid[OF init]
    by (simp add: lv_def sp_def x_def y_def)
  have hz: "lv = Fin 0" if "np_less (R self ! i ! j) (Fin (rs (black_hole self) * (11/10)))"
    unfolding lv_def using that Rc by (intro lensed_value_horizon) simp
  have out: "\<exists>u. apply_relativistic_effects self ?lensed rot ! i ! j = Fin u \<and> 0 \<le> u \<and> u \<le> 2
                 \<and> img ! i ! j = Fin (u + w)"
    if "\<not> np_le (R self ! i ! j) (Fin (rs (black_hole self)))"
  proof -
    from that have far: "4 < sqrt (x\<^sup>2 + y\<^sup>2)" by (simp add: Rc bh)
    then have "x \<noteq> 0 \<or> y \<noteq> 0" by auto
    from relativistic_value_range[OF this, of "black_hole self" v rot]
    obtain u where u: "relativistic_value (black_hole self) (Fin v) (Fin x) (Fin y) (Fin (sqrt (x\<^sup>2 + y\<^sup>2))) rot = Fin u"
      "0 \<le> u" "u \<le> 2" by blast
    show ?thesis using u far w(1) by (simp add: rc ic v)
  qed
  have inn: "img ! i ! j = Fin 0" if "np_le (R self ! i ! j) (Fin (rs (black_hole self)))"
    using that by (simp add: Rc bh ic)
  show ?thesis
    using cl img gc w(2,3) hz lc inn out by (intro exI[of _ ?lensed] exI[of _ img] exI[of _ w]) simp
qed

section \<open>Deflection magnitude and time dilation\<close>

lemma magnitude_gl:
  "magnitude (gravitational_lensing self (Fin x) (Fin y)) =
     Fin (4 * \<bar>M self\<bar> * sqrt (x\<^sup>2 + y\<^sup>2) / (max (sqrt (x\<^sup>2 + y\<^sup>2)) (1/10))\<^sup>2)"
proof -
  define r0 where "r0 = sqrt (x\<^sup>2 + y\<^sup>2)"
  define r where "r = max r0 (1/10)"
  have r0: "0 \<le> r0" "r0\<^sup>2 = x\<^sup>2 + y\<^sup>2" by (simp_all add: r0_def)
  have r: "0 < r" by (simp add: r_def less_max_iff_disj)
  have "(- (4 * M self / r) * (y / r))\<^sup>2 + (4 * M self / r * (x / r))\<^sup>2 =
          (4 * M self / r)\<^sup>2 * ((x\<^sup>2 + y\<^sup>2) / r\<^sup>2)"
    by (simp add: power_mult_distrib power_divide algebra_simps add_divide_distrib)
  also have "\<dots> = (4 * M self / r)\<^sup>2 * (r0\<^sup>2 / r\<^sup>2)"
    by (simp only: r0(2))
  also have "\<dots> = (4 * M self * r0 / r\<^sup>2)\<^sup>2"
    by (simp add: power_mult_distrib power_divide)
  finally have sq: "(- (4 * M self / r) * (y / r))\<^sup>2 + (4 * M self / r * (x / r))\<^sup>2 =
          (4 * M self * r0 / r\<^sup>2)\<^sup>2" .
  have "sqrt ((4 * M self * r0 / r\<^sup>2)\<^sup>2) = 4 * \<bar>M self\<bar> * r0 / r\<^sup>2"
    using r0(1) by (simp add: abs_mult)
  then show ?thesis
    unfolding magnitude_def gl_Fin Let_def r0_def[symmetric] r_def[symmetric]
    using sq by simp
qed

lemma magnitude_gl_outside:
  assumes "1/10 \<le> sqrt (x\<^sup>2 + y\<^sup>2)"
  shows "magnitude (gravitational_lensing self (Fin x) (Fin y)) = Fin (4 * \<bar>M self\<bar> / sqrt (x\<^sup>2 + y\<^sup>2))"
proof -
  define s where "s = sqrt (x\<^sup>2 + y\<^sup>2)"
  have s: "1/10 \<le> s" using assms by (simp add: s_def)
  then have "max s (1/10) = s" "s \<noteq> 0" by simp_all
  then have "4 * \<bar>M self\<bar> * s / (max s (1/10))\<^sup>2 = 4 * \<bar>M self\<bar> / s"
    by (simp add: power2_eq_square)
  then show ?thesis
    unfolding magnitude_gl s_def[symmetric] by simp
qed

lemma magnitude_gl_inside:
  assumes "sqrt (x\<^sup>2 + y\<^sup>2) \<le> 1/10"
  shows "magnitude (gravitational_lensing self (Fin x) (Fin y)) = Fin (400 * \<bar>M self\<bar> * sqrt (x\<^sup>2 + y\<^sup>2))"
proof -
  have "max (sqrt (x\<^sup>2 + y\<^sup>2)) (1/10) = 1/10" using assms by simp
  then show ?thesis
    unfolding magnitude_gl by (simp add: power2_eq_square)
qed

lemma time_dilation_tendsto:
  "((\<lambda>r::real. sqrt (max (1 - q / r) (1/100))) \<longlongrightarrow> 1) at_top"
proof -
  have "((\<lambda>r::real. q / r) \<longlongrightarrow> 0) at_top"
    by (rule tendsto_divide_0[OF tendsto_const filterlim_at_top_imp_at_infinity[OF filterlim_ident]])
  then have "((\<lambda>r::real. sqrt (max (1 - q / r) (1/100))) \<longlongrightarrow> sqrt (max (1 - 0) (1/100))) at_top"
    by (intro tendsto_intros)
  then show ?thesis by simp
qed

lemma time_dilation_mono:
  fixes q :: real
  assumes "0 \<le> q" "0 < r1" "r1 \<le> r2"
  shows "sqrt (max (1 - q / r1) (1/100)) \<le> sqrt (max (1 - q / r2) (1/100))"
proof -
  have "q / r2 \<le> q / r1"
    using assms by (intro divide_left_mono) simp_all
  then have "max (1 - q / r1) (1/100) \<le> max (1 - q / r2) (1/100)"
    by (intro max.mono) simp_all
  then show ?thesis by simp
qed

lemma time_dilation_bounds:
  fixes q :: real
  assumes "0 \<le> q" "0 < r"
  shows "sqrt (1/100) \<le> sqrt (max (1 - q / r) (1/100))" "sqrt (max (1 - q / r) (1/100)) \<le> 1"
proof -
  show "sqrt (1/100) \<le> sqrt (max (1 - q / r) (1/100))"
    by (subst real_sqrt_le_iff) simp
  have "0 \<le> q / r" using assms by simp
  then have "max (1 - q / r) (1/100) \<le> 1" by simp
  then show "sqrt (max (1 - q / r) (1/100)) \<le> 1"
    using real_sqrt_le_iff[of "max (1 - q / r) (1/100)" 1] by simp
qed

section \<open>Concrete cells\<close>

lemma coord_9_7: "coord 9 7 = 6" and coord_9_4: "coord 9 4 = 0"
  and coord_3_1: "coord 3 (Suc 0) = 0" and coord_3_0: "coord 3 0 = - 8"
  by (simp_all add: coord_def)

lemma coord_ends: "2 \<le> n \<Longrightarrow> coord n 0 = - 8 \<and> coord n (nat n - 1) = 8"
proof -
  assume n: "2 \<le> n"
  have "real (nat n - 1) = real_of_int n - 1" using n by (simp add: of_nat_diff)
  moreover have "(real_of_int n - 1) * (16 / (real_of_int n - 1)) = 16"
    by (rule mult_div_cancel_real) (use n in simp)
  ultimately show ?thesis using n by (simp add: coord_def del: times_divide_eq_right)
qed

lemma sqrt_6: "sqrt (6\<^sup>2 + 0\<^sup>2) = (6::real)"
  using real_sqrt_abs[of 6] by simp


lemma sin_fifth_pos: "0 < sin (1/5 :: real)"
proof -
  have "(1/5 :: real) < pi" using pi_ge_two by linarith
  then show ?thesis by (intro sin_gt_zero) simp_all
qed

lemma background_formula_origin: "background_formula 0 0 = 1/2"
  by (simp add: background_formula_def)

lemma frame_cell_9_1_4_7:
  "\<exists>u. frame_cell 9 1 4 7 = Inr (Fin (u + (2 + sin (1/5)))) \<and> 0 \<le> u \<and> u \<le> 2"
proof -
  obtain self where init: "GravitationalLensingAnimation_init 9 = Inr self"
    using init_ok[of 9] by auto
  have ij: "(4::nat) < nat 9" "(7::nat) < nat 9" by simp_all
  have Rc: "R self ! 4 ! 7 = Fin 6"
    using ij by (simp add: init_fields(6)[OF init] coord_9_7 coord_9_4 sqrt_6)
  have gl: "create_photon_sphere_glow self (1/20) ! 4 ! 7 = Fin (2 + sin (1/5))"
    using ij unfolding create_photon_sphere_glow_grid[OF init]
    by (simp add: coord_9_7 coord_9_4 sqrt_6 glow_value_Fin init_fields(3)[OF init] arctan2_def)
  from final_cell[OF init ij, of "1/20"] obtain lensed img w u where
    f: "final_image self (1/20) = Inr img"
      "create_photon_sphere_glow self (1/20) ! 4 ! 7 = Fin w"
      "0 \<le> u" "u \<le> 2" "img ! 4 ! 7 = Fin (u + w)"
    by (auto simp: Rc init_fields(3)[OF init])
  have w: "w = 2 + sin (1/5)" using f(2) gl by simp
  have "get2 img (int 4) (int 7) = Inr (img ! 4 ! 7)"
    by (rule get2_final[OF init ij f(1)])
  then have "frame_cell 9 1 4 7 = Inr (Fin (u + (2 + sin (1/5))))"
    by (simp add: frame_cell_def init ebind_def animate_def f(1) f(5) w)
  then show ?thesis using f(3,4) by blast
qed

section \<open>The store model agrees with the value model\<close>

lemma extends_refl: "extends h h"
  by (simp add: extends_def)

lemma extends_trans: "extends h h1 \<Longrightarrow> extends h1 h2 \<Longrightarrow> extends h h2"
  by (auto simp: extends_def)

lemma extends_alloc: "extends h (snd (alloc h A))"
  by (simp add: extends_def alloc_def)

lemma extends_overwrite: "fresh h \<le> p \<Longrightarrow> extends h h' \<Longrightarrow> extends h (overwrite h' p A)"
  by (auto simp: extends_def overwrite_def)

lemma represents_extends:
  "represents h self st \<Longrightarrow> extends h h' \<Longrightarrow> represents h' self st"
  by (auto simp: represents_def extends_def view_def)

lemma alloc_simps [simp]:
  "fst (alloc h A) = fresh h"
  "fresh (snd (alloc h A)) = Suc (fresh h)"
  "cells (snd (alloc h A)) = (cells h)(fresh h := A)"
  by (simp_all add: alloc_def)

lemma overwrite_simps [simp]:
  "fresh (overwrite h p A) = fresh h"
  "cells (overwrite h p A) = (cells h)(p := A)"
  "overwrite (overwrite h p A) p B = overwrite h p B"
  by (simp_all add: overwrite_def)

lemma overwrite_same: "cells h p = A \<Longrightarrow> overwrite h p A = h"
  by (auto simp: overwrite_def)

lemma view_overwrite:
  assumes "represents h self st" "fresh h \<le> p" "extends h h'"
  shows "view (overwrite h' p A) self = st"
  using assms by (auto simp: represents_def extends_def view_def)

lemma view_alloc:
  assumes "represents h self st"
  shows "view (snd (alloc h A)) self = st"
  using represents_extends[OF assms extends_alloc] by (simp add: represents_def)

lemma calculate_lensed_image_heap_spec:
  assumes init: "GravitationalLensingAnimation_init n = Inr st" and rep: "represents h self st"
  shows "\<exists>lensed h1. calculate_lensed_image st rot = Inr lensed
           \<and> calculate_lensed_image_heap self rot h = Inr (fresh h, h1)
           \<and> cells h1 (fresh h) = lensed \<and> fresh h1 = Suc (fresh h) \<and> extends h h1"
proof -
  define N where "N = nat n"
  define p where "p = fresh h"
  define h0 where "h0 = snd (alloc h (arr_map (\<lambda>u. Fin 0) (cells h (X_ref self))))"
  define sxf where "sxf = (\<lambda>i j. Fin (fst (source_point (black_hole st) (coord n j) (coord n i) rot)))"
  define syf where "syf = (\<lambda>i j. Fin (snd (source_point (black_hole st) (coord n j) (coord n i) rot)))"
  define rf where "rf = (\<lambda>i j. Fin (sqrt ((coord n j)\<^sup>2 + (coord n i)\<^sup>2)))"
  define F where "F = (\<lambda>i j old. lensed_value st (sxf i j) (syf i j) (rf i j) old)"
  define G where "G = (\<lambda>g. overwrite h0 p (grid N g))"
  have gs: "grid_size st = int N" "grid_size_attr self = n"
    using init_fields(1,2)[OF init] rep by (auto simp: N_def represents_def view_def)
  have e0: "extends h h0" unfolding h0_def by (rule extends_alloc)
  have v: "view (G g) self = st" for g
    unfolding G_def by (rule view_overwrite[OF rep _ e0]) (simp add: p_def)
  have v0: "view h0 self = st"
    using represents_extends[OF rep e0] by (simp add: represents_def)
  have X: "cells h (X_ref self) = grid N (\<lambda>i j. Fin (coord n j))"
    using rep init_fields(4)[OF init] by (auto simp: represents_def view_def N_def)
  have start: "h0 = G (\<lambda>i j. Fin 0)"
    unfolding G_def by (rule overwrite_same[symmetric]) (simp add: h0_def p_def X)
  have sp: "source_positions st rot = (grid N sxf, grid N syf)"
    unfolding source_positions_grid[OF init] sxf_def syf_def N_def ..
  have body: "ebind (lens_pixel (view (G g) self) (grid N sxf) (grid N syf) (int i) (int j) (cells (G g) p))
                (\<lambda>img. Inr (overwrite (G g) p img)) =
              Inr (G (g(i := (g i)(j := F i j (g i j)))))" if "i < N" "j < N" for i j g
  proof -
    have "lens_pixel st (grid N sxf) (grid N syf) (int i) (int j) (grid N g) =
            Inr (grid N (g(i := (g i)(j := lensed_value st (sxf i j) (syf i j) (rf i j) (g i j)))))"
      by (rule lens_pixel_grid[OF that gs(1)])
         (simp_all add: init_fields(6,7)[OF init] rf_def N_def)
    then show ?thesis
      by (simp add: v[unfolded G_def] G_def ebind_def F_def)
  qed
  have loops: "for_each [0..<N] (\<lambda>i. for_each [0..<N] (\<lambda>j h.
                ebind (lens_pixel (view h self) (grid N sxf) (grid N syf) (int i) (int j) (cells h p))
                  (\<lambda>img. Inr (overwrite h p img)))) (G (\<lambda>i j. Fin 0)) =
           Inr (G (\<lambda>i. if i < N then (\<lambda>j. if j < N then F i j (Fin 0) else Fin 0) else (\<lambda>j. Fin 0)))"
    by (rule loops_grid[where G = G and F = F and g = "\<lambda>i j. Fin 0"]) (rule body)
  have gr: "grid N (\<lambda>i. if i < N then (\<lambda>j. if j < N then F i j (Fin 0) else Fin 0) else (\<lambda>j. Fin 0)) =
            grid N (\<lambda>i j. F i j (Fin 0))"
    by (rule grid_cong) simp
  have pure: "calculate_lensed_image st rot = Inr (grid N (\<lambda>i j. F i j (Fin 0)))"
    unfolding calculate_lensed_image_grid[OF init] F_def sxf_def syf_def rf_def N_def ..
  have al: "alloc h (arr_map (\<lambda>u. Fin 0) (cells h (X_ref self))) = (p, h0)"
    by (simp add: p_def h0_def alloc_def)
  have heap: "calculate_lensed_image_heap self rot h =
              Inr (p, G (\<lambda>i. if i < N then (\<lambda>j. if j < N then F i j (Fin 0) else Fin 0) else (\<lambda>j. Fin 0)))"
  proof -
    have "calculate_lensed_image_heap self rot h =
            ebind (for_each [0..<N] (\<lambda>i. for_each [0..<N] (\<lambda>j h.
                ebind (lens_pixel (view h self) (grid N sxf) (grid N syf) (int i) (int j) (cells h p))
                  (\<lambda>img. Inr (overwrite h p img)))) h0) (\<lambda>h. Inr (p, h))"
      unfolding calculate_lensed_image_heap_def al Let_def prod.case v0 sp gs(2) N_def[symmetric] ..
    also have "\<dots> = Inr (p, G (\<lambda>i. if i < N then (\<lambda>j. if j < N then F i j (Fin 0) else Fin 0) else (\<lambda>j. Fin 0)))"
      unfolding start loops by (simp add: ebind_def)
    finally show ?thesis .
  qed
  have ext: "extends h (G g)" for g
    unfolding G_def by (rule extends_overwrite[OF _ e0]) (simp add: p_def)
  show ?thesis
    using pure heap ext by (auto simp: G_def gr p_def h0_def)
qed

lemma apply_relativistic_effects_heap_spec:
  assumes rep: "represents h self st"
  shows "\<exists>h1. apply_relativistic_effects_heap self img rot h = (Suc (fresh h), h1)
           \<and> cells h1 (Suc (fresh h)) = apply_relativistic_effects st (cells h img) rot
           \<and> fresh h1 = Suc (Suc (fresh h)) \<and> extends h h1"
proof -
  define A where "A = relativistic_product (view h self) (cells h img) rot"
  define h0 where "h0 = snd (alloc h A)"
  define B where "B = arr_map2 np_mul (cells h0 (fresh h)) (brightening (view h0 self))"
  define h1 where "h1 = overwrite h0 (fresh h) B"
  define C where "C = arr_map (\<lambda>u. np_clip u (Fin 0) (Fin 2)) (cells h1 (fresh h))"
  have al: "alloc h A = (fresh h, h0)"
    by (simp add: h0_def alloc_def)
  have e: "apply_relativistic_effects_heap self img rot h = (Suc (fresh h), snd (alloc h1 C))"
    unfolding apply_relativistic_effects_heap_def A_def[symmetric] al
      Let_def prod.case B_def[symmetric] h1_def[symmetric] C_def[symmetric]
    by (simp add: alloc_def h1_def h0_def)
  have v: "view h self = st" "view h0 self = st"
    using rep view_alloc[OF rep] by (simp_all add: represents_def h0_def)
  have "C = apply_relativistic_effects st (cells h img) rot"
    by (simp add: C_def h1_def B_def h0_def A_def v(1) view_alloc[OF rep] apply_relativistic_effects_def Let_def)
  moreover have "extends h (snd (alloc h1 C))"
    by (auto simp: extends_def h1_def h0_def)
  ultimately show ?thesis
    using e by (auto simp: h1_def h0_def)
qed

lemma create_photon_sphere_glow_heap_spec:
  assumes rep: "represents h self st"
  shows "\<exists>h1. create_photon_sphere_glow_heap self rot h = (fresh h, h1)
           \<and> cells h1 (fresh h) = create_photon_sphere_glow st rot
           \<and> fresh h1 = Suc (fresh h) \<and> extends h h1"
proof -
  have "view h self = st" using rep by (simp add: represents_def)
  then show ?thesis
    by (auto simp: create_photon_sphere_glow_heap_def alloc_def extends_def)
qed

lemma final_image_heap_spec:
  assumes init: "GravitationalLensingAnimation_init n = Inr st" and rep: "represents h self st"
  shows "\<exists>img h'. final_image st rot = Inr img
           \<and> final_image_heap self rot h = Inr (fresh h + 4, h')
           \<and> cells h' (fresh h + 4) = img \<and> fresh h' = fresh h + 5 \<and> extends h h'"
proof -
  obtain lensed h1 where l: "calculate_lensed_image st rot = Inr lensed"
    "calculate_lensed_image_heap self rot h = Inr (fresh h, h1)"
    "cells h1 (fresh h) = lensed" "fresh h1 = Suc (fresh h)" "extends h h1"
    using calculate_lensed_image_heap_spec[OF init rep, of rot] by blast
  have rep1: "represents h1 self st" by (rule represents_extends[OF rep l(5)])
  obtain h2 where r: "apply_relativistic_effects_heap self (fresh h) rot h1 = (Suc (fresh h1), h2)"
    "cells h2 (Suc (fresh h1)) = apply_relativistic_effects st (cells h1 (fresh h)) rot"
    "fresh h2 = Suc (Suc (fresh h1))" "extends h1 h2"
    using apply_relativistic_effects_heap_spec[OF rep1, of "fresh h" rot] by blast
  have rep2: "represents h2 self st" by (rule represents_extends[OF rep1 r(4)])
  obtain h3 where g: "create_photon_sphere_glow_heap self rot h2 = (fresh h2, h3)"
    "cells h3 (fresh h2) = create_photon_sphere_glow st rot"
    "fresh h3 = Suc (fresh h2)" "extends h2 h3"
    using create_photon_sphere_glow_heap_spec[OF rep2, of rot] by blast
  have rep3: "represents h3 self st" by (rule represents_extends[OF rep2 g(4)])
  define S where "S = arr_map2 np_add (cells h3 (Suc (fresh h1))) (cells h3 (fresh h2))"
  define h4 where "h4 = snd (alloc h3 S)"
  define Fm where "Fm = arr_map2 (\<lambda>r u. if np_le r (Fin (rs (black_hole_attr self))) then Fin 0 else u)
                    (cells h4 (R_ref self)) (cells h4 (fresh h3))"
  define h5 where "h5 = overwrite h4 (fresh h3) Fm"
  have al: "alloc h3 S = (fresh h3, h4)"
    by (simp add: h4_def alloc_def)
  have heap: "final_image_heap self rot h = Inr (fresh h3, h5)"
    unfolding final_image_heap_def l(2) ebind_def sum.case prod.case r(1) g(1) Let_def
      S_def[symmetric] al Fm_def[symmetric] h5_def[symmetric] ..
  have keep: "cells h3 (Suc (fresh h1)) = apply_relativistic_effects st lensed rot"
    using g(4) r(2,3) l(3) by (simp add: extends_def)
  have rep4: "represents h4 self st"
    unfolding h4_def by (rule represents_extends[OF rep3 extends_alloc])
  have Rv: "cells h4 (R_ref self) = R st" "black_hole_attr self = black_hole st"
    using rep4 by (auto simp: represents_def view_def)
  have "Fm = arr_map2 (\<lambda>r u. if np_le r (Fin (rs (black_hole st))) then Fin 0 else u) (R st)
               (arr_map2 np_add (apply_relativistic_effects st lensed rot) (create_photon_sphere_glow st rot))"
  proof -
    have "cells h4 (fresh h3) = S" by (simp add: h4_def)
    then show ?thesis by (simp only: Fm_def Rv S_def keep g(2))
  qed
  then have pure: "final_image st rot = Inr Fm"
    by (simp add: final_image_def l(1) ebind_def Let_def)
  have fr: "fresh h3 = fresh h + 4" using g(3) r(3) l(4) by simp
  have e03: "extends h h3"
    by (rule extends_trans[OF extends_trans[OF l(5) r(4)] g(4)])
  have "extends h h5"
    unfolding h5_def h4_def
    by (rule extends_overwrite[OF _ extends_trans[OF e03 extends_alloc]]) (simp add: fr)
  then show ?thesis
    using pure heap fr by (auto simp: h5_def h4_def)
qed

lemma init_heap_neg: "n < 0 \<Longrightarrow> init_heap n h = Inl ValueError"
  by (simp add: init_heap_def BlackHolePhysics_init_def ebind_def setup_coordinates_heap_def linspace_neg)

lemma init_heap_spec:
  assumes init: "GravitationalLensingAnimation_init n = Inr st"
  shows "\<exists>self h'. init_heap n h = Inr (self, h') \<and> represents h' self st \<and> extends h h'
           \<and> fresh h \<le> background_ref self"
proof -
  have n: "0 \<le> n" by (rule init_fields(1)[OF init])
  define xs where "xs = map (\<lambda>k. Fin (coord n k)) [0..<nat n]"
  have lin: "linspace (- 8) 8 n = Inr xs"
    unfolding xs_def by (rule linspace_coord[OF n])
  obtain Xg Yg where mg: "meshgrid xs xs = (Xg, Yg)" by (cases "meshgrid xs xs")
  have st: "st = create_background_pattern
      \<lparr>black_hole = \<lparr>M = 2, a = 8/5, rs = 4, c = 1\<rparr>, grid_size = n,
       X = Xg, Y = Yg, R = radius_array Xg Yg, background = []\<rparr>"
    using init
    by (simp add: GravitationalLensingAnimation_init_def BlackHolePhysics_init_def ebind_def
          setup_coordinates_def Let_def lin mg)
  show ?thesis
    unfolding init_heap_def setup_coordinates_heap_def create_background_pattern_heap_def
    by (simp add: BlackHolePhysics_init_def ebind_def Let_def lin mg alloc_def overwrite_def
          view_def represents_def extends_def st create_background_pattern_def
          background_base_def radial_pattern_def)
qed

lemma init_heap_projr:
  assumes "GravitationalLensingAnimation_init n = Inr st"
  shows "represents (snd (projr (init_heap n h))) (fst (projr (init_heap n h))) st"
  using init_heap_spec[OF assms, of h] by auto

lemma represents_background:
  "represents h self st \<Longrightarrow> cells h (background_ref self) = background st"
  by (auto simp: represents_def view_def)

lemma extends_background:
  "represents h self st \<Longrightarrow> extends h h' \<Longrightarrow> cells h' (background_ref self) = cells h (background_ref self)"
  by (auto simp: represents_def extends_def)

section \<open>The guarded read and the empty grid\<close>




lemma init_zero:
  "GravitationalLensingAnimation_init 0 =
     Inr \<lparr>black_hole = \<lparr>M = 2, a = 8/5, rs = 4, c = 1\<rparr>, grid_size = 0,
          X = [], Y = [], R = [], background = []\<rparr>"
  by (simp add: GravitationalLensingAnimation_init_def BlackHolePhysics_init_def ebind_def
        setup_coordinates_def linspace_def meshgrid_def radius_array_def
        create_background_pattern_def background_base_def radial_pattern_def
        arr_map_def arr_map2_def Let_def)

section \<open>The properties\<close>

text \<open>
  C1. The claim is that every cell of the final frame lies in \<open>[0, 2]\<close>, the clamp being
  the last step, after the photon ring is added. The code clamps the relativistic image to
  \<open>[0, 2]\<close> inside \<open>apply_relativistic_effects\<close> and adds the glow, which lies in
  \<open>(0, 3]\<close>, afterwards without another clamp. What holds: every cell of the final frame is
  a finite number in \<open>[0, 5]\<close>; outside the horizon it is the sum of a relativistic part in
  \<open>[0, 2]\<close> and a glow in \<open>(0, 3]\<close>. On a grid of size 9 the cell in row 4, column 7 (the
  point \<open>(6, 0)\<close> on the photon ring) exceeds 2 at frame 1.
\<close>

theorem final_frame_range:
  assumes "GravitationalLensingAnimation_init n = Inr self" and "i < nat n" and "j < nat n"
  shows "\<exists>lensed img v.
           calculate_lensed_image self rot = Inr lensed \<and> final_image self rot = Inr img
         \<and> img ! i ! j = Fin v \<and> 0 \<le> v \<and> v \<le> 5
         \<and> (\<not> np_le (R self ! i ! j) (Fin (rs (black_hole self))) \<longrightarrow>
              (\<exists>u w. apply_relativistic_effects self lensed rot ! i ! j = Fin u \<and> 0 \<le> u \<and> u \<le> 2
                    \<and> create_photon_sphere_glow self rot ! i ! j = Fin w \<and> 0 < w \<and> w \<le> 3
                    \<and> v = u + w))"
proof -
  from final_cell[OF assms, of rot] obtain lensed img w where
    f: "calculate_lensed_image self rot = Inr lensed" "final_image self rot = Inr img"
       "create_photon_sphere_glow self rot ! i ! j = Fin w" "0 < w" "w \<le> 3"
       "np_le (R self ! i ! j) (Fin (rs (black_hole self))) \<longrightarrow> img ! i ! j = Fin 0"
       "\<not> np_le (R self ! i ! j) (Fin (rs (black_hole self))) \<longrightarrow>
          (\<exists>u. apply_relativistic_effects self lensed rot ! i ! j = Fin u \<and> 0 \<le> u \<and> u \<le> 2
               \<and> img ! i ! j = Fin (u + w))"
    by blast
  show ?thesis
  proof (cases "np_le (R self ! i ! j) (Fin (rs (black_hole self)))")
    case True
    then show ?thesis using f(1,2,6) by auto
  next
    case False
    then obtain u where u: "apply_relativistic_effects self lensed rot ! i ! j = Fin u" "0 \<le> u" "u \<le> 2"
      "img ! i ! j = Fin (u + w)"
      using f(7) by blast
    have "0 \<le> u + w" "u + w \<le> 5" using u(2,3) f(4,5) by linarith+
    then show ?thesis using f(1,2,3,4,5) u by blast
  qed
qed

theorem final_frame_range_witness:
  "GravitationalLensingAnimation_init 9 = Inr (projr (GravitationalLensingAnimation_init 9))
   \<and> (4::nat) < nat 9 \<and> (7::nat) < nat 9
   \<and> \<not> np_le (R (projr (GravitationalLensingAnimation_init 9)) ! 4 ! 7)
              (Fin (rs (black_hole (projr (GravitationalLensingAnimation_init 9)))))
   \<and> (\<exists>img v. final_image (projr (GravitationalLensingAnimation_init 9)) (1/20) = Inr img
         \<and> img ! 4 ! 7 = Fin v \<and> 0 \<le> v \<and> v \<le> 5
         \<and> (\<exists>u w. 0 \<le> u \<and> u \<le> 2 \<and> 0 < w \<and> w \<le> 3 \<and> v = u + w))"
proof -
  define S where "S = projr (GravitationalLensingAnimation_init 9)"
  have init: "GravitationalLensingAnimation_init 9 = Inr S"
    unfolding S_def by (rule init_projr) simp
  have ij: "(4::nat) < nat 9" "(7::nat) < nat 9" by simp_all
  have far: "\<not> np_le (R S ! 4 ! 7) (Fin (rs (black_hole S)))"
    using ij by (simp add: init_fields(6)[OF init] init_fields(3)[OF init] coord_9_7 coord_9_4 sqrt_6)
  from final_frame_range[OF init ij, of "1/20"] far
  have "\<exists>img v. final_image S (1/20) = Inr img
         \<and> img ! 4 ! 7 = Fin v \<and> 0 \<le> v \<and> v \<le> 5
         \<and> (\<exists>u w. 0 \<le> u \<and> u \<le> 2 \<and> 0 < w \<and> w \<le> 3 \<and> v = u + w)"
    by blast
  then show ?thesis using init ij far unfolding S_def by blast
qed

theorem final_frame_range_counterexample:
  "\<not> isl (frame_cell 9 1 4 7) \<and> np_less (Fin 2) (projr (frame_cell 9 1 4 7))"
proof -
  obtain u where "frame_cell 9 1 4 7 = Inr (Fin (u + (2 + sin (1/5))))" "0 \<le> u"
    using frame_cell_9_1_4_7 by blast
  then show ?thesis using sin_fifth_pos by simp
qed

text \<open>
  C2. For every grid size and rotation angle, a cell whose radius is at most \<open>rs\<close> is
  exactly 0 in the final frame, and a cell whose radius is below \<open>1.1 rs\<close> is 0 already in
  the image that \<open>calculate_lensed_image\<close> returns.
\<close>

theorem horizon_cells_zero:
  assumes "GravitationalLensingAnimation_init n = Inr self" and "i < nat n" and "j < nat n"
  shows "\<exists>lensed img.
           calculate_lensed_image self rot = Inr lensed \<and> final_image self rot = Inr img
         \<and> (np_le (R self ! i ! j) (Fin (rs (black_hole self))) \<longrightarrow> img ! i ! j = Fin 0)
         \<and> (np_less (R self ! i ! j) (Fin (rs (black_hole self) * (11/10))) \<longrightarrow> lensed ! i ! j = Fin 0)"
  using final_cell[OF assms, of rot] by blast

theorem horizon_cells_zero_witness:
  "GravitationalLensingAnimation_init 3 = Inr (projr (GravitationalLensingAnimation_init 3))
   \<and> (1::nat) < nat 3
   \<and> np_le (R (projr (GravitationalLensingAnimation_init 3)) ! 1 ! 1)
            (Fin (rs (black_hole (projr (GravitationalLensingAnimation_init 3)))))
   \<and> np_less (R (projr (GravitationalLensingAnimation_init 3)) ! 1 ! 1)
            (Fin (rs (black_hole (projr (GravitationalLensingAnimation_init 3))) * (11/10)))
   \<and> (\<exists>lensed img.
         calculate_lensed_image (projr (GravitationalLensingAnimation_init 3)) 0 = Inr lensed
       \<and> final_image (projr (GravitationalLensingAnimation_init 3)) 0 = Inr img
       \<and> img ! 1 ! 1 = Fin 0 \<and> lensed ! 1 ! 1 = Fin 0)"
proof -
  define S where "S = projr (GravitationalLensingAnimation_init 3)"
  have init: "GravitationalLensingAnimation_init 3 = Inr S"
    unfolding S_def by (rule init_projr) simp
  have ij: "(1::nat) < nat 3" by simp
  have Rc: "R S ! 1 ! 1 = Fin 0"
    using ij by (simp add: init_fields(6)[OF init] coord_3_1)
  have h: "np_le (R S ! 1 ! 1) (Fin (rs (black_hole S)))"
    "np_less (R S ! 1 ! 1) (Fin (rs (black_hole S) * (11/10)))"
    using Rc by (simp_all add: init_fields(3)[OF init])
  from horizon_cells_zero[OF init ij ij, of 0] h
  have "\<exists>lensed img. calculate_lensed_image S 0 = Inr lensed \<and> final_image S 0 = Inr img
       \<and> img ! 1 ! 1 = Fin 0 \<and> lensed ! 1 ! 1 = Fin 0"
    by blast
  then show ?thesis using init ij h unfolding S_def by blast
qed

text \<open>
  C3. The claim is that \<open>doppler_shift\<close> returns a value in \<open>[0.3, 2.0]\<close> at every finite
  input, the origin included, the radius being floored at 0.1 before it divides. The method
  has no such floor (\<open>gravitational_lensing\<close> has it): at \<open>(0, 0)\<close> the radius is 0, the
  frame-dragging rate is a division by zero, its product with the radius is NaN, and the clip
  returns NaN, for every mass, spin and rotation angle.
\<close>

theorem doppler_shift_origin_nan:
  "doppler_shift self (Fin 0) (Fin 0) rotation_angle = NaN"
  by (simp add: doppler_shift_def np_clip_def np_minimum_def np_maximum_def signed_inf_def)

text \<open>
  C4. The claim is that a configuration out of range is rejected when the objects are built.
  The constructors make no check. \<open>BlackHolePhysics\<close> stores any mass and spin. The
  renderer takes the grid size only: it builds its physics with mass 2.0 and spin 0.8, lays
  the grid from \<open>-8\<close> to \<open>8\<close>, and fails exactly when \<open>np.linspace\<close> does, on a negative
  grid size; a grid size of 0 is accepted and gives empty arrays. Mass \<open>-1\<close> with spin 5,
  and grid size 0, are built without error.
\<close>

theorem construction_checks:
  "BlackHolePhysics_init mass spin = Inr \<lparr>M = mass, a = spin * mass, rs = 2 * mass, c = 1\<rparr>
   \<and> (isl (GravitationalLensingAnimation_init n) \<longleftrightarrow> n < 0)
   \<and> (n < 0 \<longrightarrow> GravitationalLensingAnimation_init n = Inl ValueError)
   \<and> (\<forall>self. GravitationalLensingAnimation_init n = Inr self \<longrightarrow>
          BlackHolePhysics_init 2 (8/10) = Inr (black_hole self)
        \<and> grid_size self = n
        \<and> X self = grid (nat n) (\<lambda>i j. Fin (coord n j))
        \<and> Y self = grid (nat n) (\<lambda>i j. Fin (coord n i))
        \<and> R self = radius_array (X self) (Y self)
        \<and> (\<forall>k<nat n. - 8 \<le> coord n k \<and> coord n k \<le> 8)
        \<and> (2 \<le> n \<longrightarrow> coord n 0 = - 8 \<and> coord n (nat n - 1) = 8))
   \<and> GravitationalLensingAnimation_init 0 =
       Inr \<lparr>black_hole = \<lparr>M = 2, a = 8/5, rs = 4, c = 1\<rparr>, grid_size = 0,
            X = [], Y = [], R = [], background = []\<rparr>"
proof -
  have a: "\<not> isl (GravitationalLensingAnimation_init n)" if "0 \<le> n"
    using init_ok[OF that] by auto
  have b: "GravitationalLensingAnimation_init n = Inl ValueError" if "n < 0"
    using that by (rule init_neg)
  have c: "BlackHolePhysics_init 2 (8/10) = Inr (black_hole self)
        \<and> grid_size self = n
        \<and> X self = grid (nat n) (\<lambda>i j. Fin (coord n j))
        \<and> Y self = grid (nat n) (\<lambda>i j. Fin (coord n i))
        \<and> R self = radius_array (X self) (Y self)
        \<and> (\<forall>k<nat n. - 8 \<le> coord n k \<and> coord n k \<le> 8)
        \<and> (2 \<le> n \<longrightarrow> coord n 0 = - 8 \<and> coord n (nat n - 1) = 8)"
    if init: "GravitationalLensingAnimation_init n = Inr self" for self
  proof -
    have 1: "BlackHolePhysics_init 2 (8/10) = Inr (black_hole self)"
      by (simp add: init_fields(3)[OF init] BlackHolePhysics_init_def)
    have 2: "R self = radius_array (X self) (Y self)"
      by (simp add: init_fields(4,5,6)[OF init] radius_array_def)
    have 3: "- 8 \<le> coord n k \<and> coord n k \<le> 8" if k: "k < nat n" for k
    proof (cases "n \<le> 1")
      case True
      then show ?thesis by (simp add: coord_def)
    next
      case False
      define d where "d = real_of_int n - 1"
      have d: "0 < d" "real k \<le> d" using False k by (simp_all add: d_def of_nat_less_iff nat_less_iff)
      have "real k * (16 / d) \<le> d * (16 / d)"
        using d by (intro mult_right_mono) simp_all
      also have "d * (16 / d) = 16" using d(1) by simp
      finally have "real k * (16 / d) \<le> 16" .
      moreover have "0 \<le> real k * (16 / d)" using d(1) by simp
      ultimately show ?thesis using False
        by (simp add: coord_def d_def[symmetric] del: times_divide_eq_right)
    qed
    show ?thesis
      using 1 2 3 init_fields(2,4,5)[OF init] coord_ends[of n] by blast
  qed
  show ?thesis
    using a b c init_zero by (cases "n < 0") (auto simp: BlackHolePhysics_init_def)
qed

theorem construction_checks_witness:
  "GravitationalLensingAnimation_init (- 1) = Inl ValueError
   \<and> \<not> isl (GravitationalLensingAnimation_init 3)
   \<and> GravitationalLensingAnimation_init 3 = Inr (projr (GravitationalLensingAnimation_init 3))
   \<and> BlackHolePhysics_init 2 (8/10) = Inr (black_hole (projr (GravitationalLensingAnimation_init 3)))
   \<and> grid_size (projr (GravitationalLensingAnimation_init 3)) = 3
   \<and> X (projr (GravitationalLensingAnimation_init 3)) = grid (nat 3) (\<lambda>i j. Fin (coord 3 j))
   \<and> (2::int) \<le> 3 \<and> coord 3 0 = - 8 \<and> coord 3 (nat 3 - 1) = 8
   \<and> (1::nat) < nat 3 \<and> - 8 \<le> coord 3 1 \<and> coord 3 1 \<le> 8"
proof -
  define S where "S = projr (GravitationalLensingAnimation_init 3)"
  have init: "GravitationalLensingAnimation_init 3 = Inr S"
    unfolding S_def by (rule init_projr) simp
  note t1 = construction_checks[of 2 "4/5" "- 1"]
  note t3 = construction_checks[of 2 "4/5" 3]
  have neg: "GravitationalLensingAnimation_init (- 1) = Inl ValueError"
    using t1 by simp
  have ok: "\<not> isl (GravitationalLensingAnimation_init 3)"
    using t3 by simp
  have f: "BlackHolePhysics_init 2 (8/10) = Inr (black_hole S)" "grid_size S = 3"
    "X S = grid (nat 3) (\<lambda>i j. Fin (coord 3 j))"
    "\<forall>k<nat 3. - 8 \<le> coord 3 k \<and> coord 3 k \<le> 8"
    "2 \<le> (3::int) \<longrightarrow> coord 3 0 = - 8 \<and> coord 3 (nat 3 - 1) = 8"
    using t3 init by blast+
  have k: "(1::nat) < nat 3" by simp
  have "- 8 \<le> coord 3 1 \<and> coord 3 1 \<le> 8" using f(4) k by blast
  moreover have "coord 3 0 = - 8 \<and> coord 3 (nat 3 - 1) = 8" using f(5) by simp
  ultimately show ?thesis
    unfolding S_def[symmetric] using neg ok init f(1,2,3) k by simp
qed

theorem construction_unchecked_counterexample:
  "BlackHolePhysics_init (- 1) 5 = Inr \<lparr>M = - 1, a = - 5, rs = - 2, c = 1\<rparr>
   \<and> GravitationalLensingAnimation_init 0 =
       Inr \<lparr>black_hole = \<lparr>M = 2, a = 8/5, rs = 4, c = 1\<rparr>, grid_size = 0,
            X = [], Y = [], R = [], background = []\<rparr>"
  using init_zero by (simp add: BlackHolePhysics_init_def)

text \<open>
  C5. The claim is that the magnitude of the deflection strictly decreases as the radius
  grows, and that the deflection is well defined at the origin. With a positive mass the
  deflection is finite at every finite point and is \<open>(0, 0)\<close> at the origin; at radii from
  the floor 0.1 upwards its magnitude is \<open>4M/r\<close> and strictly decreases. Below the floor
  the claim fails: the magnitude is \<open>400 M r\<close>, which grows with the radius.
\<close>

theorem deflection_magnitude:
  assumes "0 < mass" and "BlackHolePhysics_init mass spin = Inr self"
  shows "(\<forall>x y. \<exists>dx dy. gravitational_lensing self (Fin x) (Fin y) = (Fin dx, Fin dy))
       \<and> gravitational_lensing self (Fin 0) (Fin 0) = (Fin 0, Fin 0)
       \<and> (\<forall>x y. 1/10 \<le> sqrt (x\<^sup>2 + y\<^sup>2) \<longrightarrow>
              magnitude (gravitational_lensing self (Fin x) (Fin y)) = Fin (4 * mass / sqrt (x\<^sup>2 + y\<^sup>2)))
       \<and> (\<forall>x y. sqrt (x\<^sup>2 + y\<^sup>2) \<le> 1/10 \<longrightarrow>
              magnitude (gravitational_lensing self (Fin x) (Fin y)) = Fin (400 * mass * sqrt (x\<^sup>2 + y\<^sup>2)))
       \<and> (\<forall>x1 y1 x2 y2. 1/10 \<le> sqrt (x1\<^sup>2 + y1\<^sup>2) \<and> sqrt (x1\<^sup>2 + y1\<^sup>2) < sqrt (x2\<^sup>2 + y2\<^sup>2) \<longrightarrow>
              np_less (magnitude (gravitational_lensing self (Fin x2) (Fin y2)))
                      (magnitude (gravitational_lensing self (Fin x1) (Fin y1))))"
proof -
  have m: "\<bar>M self\<bar> = mass"
    using assms by (auto simp: BlackHolePhysics_init_def)
  have a: "\<exists>dx dy. gravitational_lensing self (Fin x) (Fin y) = (Fin dx, Fin dy)" for x y
    by (simp add: gl_Fin Let_def)
  have b: "gravitational_lensing self (Fin 0) (Fin 0) = (Fin 0, Fin 0)"
    by (simp add: gl_Fin Let_def)
  have c: "magnitude (gravitational_lensing self (Fin x) (Fin y)) = Fin (4 * mass / sqrt (x\<^sup>2 + y\<^sup>2))"
    if "1/10 \<le> sqrt (x\<^sup>2 + y\<^sup>2)" for x y
    unfolding magnitude_gl_outside[OF that, of self] m ..
  have c': "magnitude (gravitational_lensing self (Fin x) (Fin y)) = Fin (400 * mass * sqrt (x\<^sup>2 + y\<^sup>2))"
    if "sqrt (x\<^sup>2 + y\<^sup>2) \<le> 1/10" for x y
    unfolding magnitude_gl_inside[OF that, of self] m ..
  have d: "np_less (magnitude (gravitational_lensing self (Fin x2) (Fin y2)))
                   (magnitude (gravitational_lensing self (Fin x1) (Fin y1)))"
    if h: "1/10 \<le> sqrt (x1\<^sup>2 + y1\<^sup>2) \<and> sqrt (x1\<^sup>2 + y1\<^sup>2) < sqrt (x2\<^sup>2 + y2\<^sup>2)" for x1 y1 x2 y2
  proof -
    define s1 where "s1 = sqrt (x1\<^sup>2 + y1\<^sup>2)"
    define s2 where "s2 = sqrt (x2\<^sup>2 + y2\<^sup>2)"
    have s: "1/10 \<le> s1" "s1 < s2" using h by (simp_all add: s1_def s2_def)
    then have "0 < s1" "1/10 \<le> s2" by linarith+
    then have "4 * mass / s2 < 4 * mass / s1"
      using s assms(1) by (intro divide_strict_left_mono) (simp_all add: mult_pos_pos)
    then show ?thesis
      using c[of x1 y1] c[of x2 y2] s \<open>1/10 \<le> s2\<close> by (simp add: s1_def s2_def)
  qed
  show ?thesis using a b c c' d by blast
qed

theorem deflection_magnitude_witness:
  "(0::real) < 2 \<and> BlackHolePhysics_init 2 (4/5) = Inr \<lparr>M = 2, a = 8/5, rs = 4, c = 1\<rparr>
   \<and> magnitude (gravitational_lensing \<lparr>M = 2, a = 8/5, rs = 4, c = 1\<rparr> (Fin 1) (Fin 0)) = Fin 8
   \<and> np_less (magnitude (gravitational_lensing \<lparr>M = 2, a = 8/5, rs = 4, c = 1\<rparr> (Fin 2) (Fin 0)))
              (magnitude (gravitational_lensing \<lparr>M = 2, a = 8/5, rs = 4, c = 1\<rparr> (Fin 1) (Fin 0)))"
proof -
  have i: "BlackHolePhysics_init 2 (4/5) = Inr \<lparr>M = 2, a = 8/5, rs = 4, c = 1\<rparr>"
    by (simp add: BlackHolePhysics_init_def)
  have p: "(0::real) < 2" by simp
  have s: "sqrt (1\<^sup>2 + 0\<^sup>2) = (1::real)" "sqrt (2\<^sup>2 + 0\<^sup>2) = (2::real)" by simp_all
  have h1: "1/10 \<le> sqrt ((1::real)\<^sup>2 + 0\<^sup>2)" by simp
  have h2: "1/10 \<le> sqrt ((1::real)\<^sup>2 + 0\<^sup>2) \<and> sqrt ((1::real)\<^sup>2 + 0\<^sup>2) < sqrt (2\<^sup>2 + 0\<^sup>2)"
    by simp
  from deflection_magnitude[OF p i] have
    "magnitude (gravitational_lensing \<lparr>M = 2, a = 8/5, rs = 4, c = 1\<rparr> (Fin 1) (Fin 0)) = Fin (4 * 2 / sqrt ((1::real)\<^sup>2 + 0\<^sup>2))"
    "np_less (magnitude (gravitational_lensing \<lparr>M = 2, a = 8/5, rs = 4, c = 1\<rparr> (Fin 2) (Fin 0)))
              (magnitude (gravitational_lensing \<lparr>M = 2, a = 8/5, rs = 4, c = 1\<rparr> (Fin 1) (Fin 0)))"
    using h1 h2 by blast+
  then show ?thesis using i by simp
qed

theorem deflection_magnitude_counterexample:
  "np_less (magnitude (gravitational_lensing \<lparr>M = 2, a = 8/5, rs = 4, c = 1\<rparr> (Fin 0) (Fin 0)))
           (magnitude (gravitational_lensing \<lparr>M = 2, a = 8/5, rs = 4, c = 1\<rparr> (Fin (1/20)) (Fin 0)))"
proof -
  have s: "sqrt ((1/20)\<^sup>2 + 0\<^sup>2) = (1/20::real)"
    using real_sqrt_abs[of "1/20"] by simp
  have z: "sqrt (0\<^sup>2 + 0\<^sup>2) = (0::real)" by simp
  have "magnitude (gravitational_lensing \<lparr>M = 2, a = 8/5, rs = 4, c = 1\<rparr> (Fin (1/20)) (Fin 0)) = Fin 40"
    using magnitude_gl_inside[of "1/20" 0 "\<lparr>M = 2, a = 8/5, rs = 4, c = 1\<rparr>"] by (simp only: s) simp
  moreover have "magnitude (gravitational_lensing \<lparr>M = 2, a = 8/5, rs = 4, c = 1\<rparr> (Fin 0) (Fin 0)) = Fin 0"
    using magnitude_gl_inside[of 0 0 "\<lparr>M = 2, a = 8/5, rs = 4, c = 1\<rparr>"] by (simp only: z) simp
  ultimately show ?thesis by simp
qed

text \<open>
  C6. For a positive mass and every \<open>r > 0\<close>, the time dilation returned by
  \<open>schwarzschild_metric_effects\<close> is \<open>sqrt(max(1 - rs/r, 0.01))\<close>, it lies between
  \<open>sqrt(0.01)\<close> and 1, it does not decrease as \<open>r\<close> grows beyond \<open>rs\<close>, and it tends to 1
  as \<open>r\<close> tends to infinity.
\<close>

theorem time_dilation_range_monotone:
  assumes "0 < mass" and "BlackHolePhysics_init mass spin = Inr self"
  shows "(\<forall>r>0. fst (schwarzschild_metric_effects self (Fin r)) = Fin (sqrt (max (1 - rs self / r) (1/100)))
              \<and> sqrt (1/100) \<le> sqrt (max (1 - rs self / r) (1/100))
              \<and> sqrt (max (1 - rs self / r) (1/100)) \<le> 1)
       \<and> (\<forall>r1 r2. rs self < r1 \<and> r1 \<le> r2 \<longrightarrow>
              np_le (fst (schwarzschild_metric_effects self (Fin r1)))
                    (fst (schwarzschild_metric_effects self (Fin r2))))
       \<and> ((\<lambda>r. sqrt (max (1 - rs self / r) (1/100))) \<longlongrightarrow> 1) at_top"
proof -
  have q: "0 \<le> rs self" "rs self = 2 * mass"
    using assms by (auto simp: BlackHolePhysics_init_def)
  have "fst (schwarzschild_metric_effects self (Fin r)) = Fin (sqrt (max (1 - rs self / r) (1/100)))"
    if "0 < r" for r
    using sme_Fin[OF that] by simp
  moreover have "np_le (fst (schwarzschild_metric_effects self (Fin r1)))
                       (fst (schwarzschild_metric_effects self (Fin r2)))"
    if "rs self < r1 \<and> r1 \<le> r2" for r1 r2
  proof -
    have pos: "0 < r1" "0 < r2" using that q(1) by linarith+
    show ?thesis
      using time_dilation_mono[OF q(1) pos(1), of r2] that
      by (simp add: sme_Fin[OF pos(1)] sme_Fin[OF pos(2)])
  qed
  ultimately show ?thesis
    using time_dilation_bounds[OF q(1)] time_dilation_tendsto[of "rs self"] by blast
qed

theorem time_dilation_range_monotone_witness:
  "(0::real) < 2 \<and> BlackHolePhysics_init 2 (4/5) = Inr \<lparr>M = 2, a = 8/5, rs = 4, c = 1\<rparr>
   \<and> fst (schwarzschild_metric_effects \<lparr>M = 2, a = 8/5, rs = 4, c = 1\<rparr> (Fin 8)) = Fin (sqrt (1/2))
   \<and> np_le (fst (schwarzschild_metric_effects \<lparr>M = 2, a = 8/5, rs = 4, c = 1\<rparr> (Fin 5)))
            (fst (schwarzschild_metric_effects \<lparr>M = 2, a = 8/5, rs = 4, c = 1\<rparr> (Fin 8)))"
proof -
  have i: "BlackHolePhysics_init 2 (4/5) = Inr \<lparr>M = 2, a = 8/5, rs = 4, c = 1\<rparr>"
    by (simp add: BlackHolePhysics_init_def)
  have p: "(0::real) < 2" by simp
  from time_dilation_range_monotone[OF p i] show ?thesis
    using i by simp
qed



text \<open>
  C8. The constructor leaves in \<open>self.background\<close> an \<open>n\<close> by \<open>n\<close> array whose cell
  \<open>(i, j)\<close> is the background formula of the specification at the grid point
  \<open>(X[i, j], Y[i, j])\<close>, the grid running from \<open>-8\<close> to \<open>8\<close> on both axes. On the store,
  the array at the address held by \<open>self.background\<close> is that array after construction,
  and it is the same array after \<open>calculate_lensed_image\<close>, after
  \<open>apply_relativistic_effects\<close>, after \<open>create_photon_sphere_glow\<close> and after a whole
  frame, from every store that holds the renderer.
\<close>

theorem background_fixed:
  assumes "GravitationalLensingAnimation_init n = Inr st"
  shows "length (background st) = nat n
       \<and> (\<forall>i<nat n. length (background st ! i) = nat n)
       \<and> (\<forall>i<nat n. \<forall>j<nat n.
             X st ! i ! j = Fin (coord n j) \<and> Y st ! i ! j = Fin (coord n i)
           \<and> background st ! i ! j = Fin (background_formula (coord n j) (coord n i)))
       \<and> (2 \<le> n \<longrightarrow> coord n 0 = - 8 \<and> coord n (nat n - 1) = 8)
       \<and> (\<forall>h0. \<exists>self h. init_heap n h0 = Inr (self, h) \<and> represents h self st)
       \<and> (\<forall>self h rot img. represents h self st \<longrightarrow>
             cells h (background_ref self) = background st
           \<and> (\<exists>p h'. calculate_lensed_image_heap self rot h = Inr (p, h')
                 \<and> cells h' (background_ref self) = background st)
           \<and> cells (snd (apply_relativistic_effects_heap self img rot h)) (background_ref self) = background st
           \<and> cells (snd (create_photon_sphere_glow_heap self rot h)) (background_ref self) = background st
           \<and> (\<exists>p h'. final_image_heap self rot h = Inr (p, h')
                 \<and> cells h' (background_ref self) = background st))"
proof -
  have a: "length (background st) = nat n" "\<forall>i<nat n. length (background st ! i) = nat n"
    by (simp_all add: init_fields(7)[OF assms])
  have b: "\<forall>i<nat n. \<forall>j<nat n.
             X st ! i ! j = Fin (coord n j) \<and> Y st ! i ! j = Fin (coord n i)
           \<and> background st ! i ! j = Fin (background_formula (coord n j) (coord n i))"
    by (simp add: init_fields(4,5,7)[OF assms])
  have c: "\<exists>self h. init_heap n h0 = Inr (self, h) \<and> represents h self st" for h0
    using init_heap_spec[OF assms, of h0] by blast
  have d: "cells h (background_ref self) = background st
           \<and> (\<exists>p h'. calculate_lensed_image_heap self rot h = Inr (p, h')
                 \<and> cells h' (background_ref self) = background st)
           \<and> cells (snd (apply_relativistic_effects_heap self img rot h)) (background_ref self) = background st
           \<and> cells (snd (create_photon_sphere_glow_heap self rot h)) (background_ref self) = background st
           \<and> (\<exists>p h'. final_image_heap self rot h = Inr (p, h')
                 \<and> cells h' (background_ref self) = background st)"
    if rep: "represents h self st" for self h rot img
  proof -
    note bg = represents_background[OF rep]
    note keep = extends_background[OF rep]
    have 1: "\<exists>p h'. calculate_lensed_image_heap self rot h = Inr (p, h')
                 \<and> cells h' (background_ref self) = background st"
      using calculate_lensed_image_heap_spec[OF assms rep, of rot] keep bg by force
    have 2: "cells (snd (apply_relativistic_effects_heap self img rot h)) (background_ref self) = background st"
      using apply_relativistic_effects_heap_spec[OF rep, of img rot] keep bg by force
    have 3: "cells (snd (create_photon_sphere_glow_heap self rot h)) (background_ref self) = background st"
      using create_photon_sphere_glow_heap_spec[OF rep, of rot] keep bg by force
    have 4: "\<exists>p h'. final_image_heap self rot h = Inr (p, h')
                 \<and> cells h' (background_ref self) = background st"
      using final_image_heap_spec[OF assms rep, of rot] keep bg by force
    show ?thesis using bg 1 2 3 4 by blast
  qed
  show ?thesis
    using a b c d coord_ends[of n] by blast
qed

theorem background_fixed_witness:
  "GravitationalLensingAnimation_init 3 = Inr (projr (GravitationalLensingAnimation_init 3))
   \<and> (1::nat) < nat 3 \<and> (2::int) \<le> 3
   \<and> represents (snd (projr (init_heap 3 empty_heap))) (fst (projr (init_heap 3 empty_heap)))
        (projr (GravitationalLensingAnimation_init 3))
   \<and> background (projr (GravitationalLensingAnimation_init 3)) ! 1 ! 1 = Fin (1/2)
   \<and> coord 3 0 = - 8 \<and> coord 3 (nat 3 - 1) = 8
   \<and> cells (snd (projr (init_heap 3 empty_heap))) (background_ref (fst (projr (init_heap 3 empty_heap))))
        = background (projr (GravitationalLensingAnimation_init 3))
   \<and> (\<exists>p h'. final_image_heap (fst (projr (init_heap 3 empty_heap))) 0 (snd (projr (init_heap 3 empty_heap)))
                 = Inr (p, h')
          \<and> cells h' (background_ref (fst (projr (init_heap 3 empty_heap))))
               = background (projr (GravitationalLensingAnimation_init 3)))"
proof -
  define S where "S = projr (GravitationalLensingAnimation_init 3)"
  define Ob where "Ob = fst (projr (init_heap 3 empty_heap))"
  define H where "H = snd (projr (init_heap 3 empty_heap))"
  have init: "GravitationalLensingAnimation_init 3 = Inr S"
    unfolding S_def by (rule init_projr) simp
  have rep: "represents H Ob S"
    unfolding H_def Ob_def by (rule init_heap_projr[OF init])
  have ij: "(1::nat) < nat 3" by simp
  have n: "(2::int) \<le> 3" by simp
  note t = background_fixed[OF init]
  have bg: "background S ! 1 ! 1 = Fin (background_formula (coord 3 1) (coord 3 1))"
    using t ij by blast
  have ends: "coord 3 0 = - 8 \<and> coord 3 (nat 3 - 1) = 8"
    using t n by blast
  have keep: "cells H (background_ref Ob) = background S
     \<and> (\<exists>p h'. final_image_heap Ob 0 H = Inr (p, h') \<and> cells h' (background_ref Ob) = background S)"
    using t rep by blast
  have "background S ! 1 ! 1 = Fin (1/2)"
    using bg coord_3_1 by (simp add: background_formula_origin)
  then show ?thesis
    using init rep ij n ends keep unfolding S_def Ob_def H_def by blast
qed

text \<open>
  C9. From every store that holds the renderer, two executions of the frame pipeline with
  the same rotation angle both return, their output arrays are equal, the second execution
  leaves the first output intact, and after each of them the store still holds the same
  grid, background and physics parameters. The output is a function of the renderer state
  and the angle alone: it is the frame that the value model computes.
\<close>

theorem render_deterministic:
  assumes "GravitationalLensingAnimation_init n = Inr st" and "represents h self st"
  shows "\<exists>f1 h1 f2 h2 img.
           final_image_heap self rot h = Inr (f1, h1)
         \<and> final_image_heap self rot h1 = Inr (f2, h2)
         \<and> final_image st rot = Inr img
         \<and> cells h1 f1 = img \<and> cells h2 f2 = img \<and> cells h2 f1 = img \<and> f1 \<noteq> f2
         \<and> represents h1 self st \<and> represents h2 self st
         \<and> extends h h1 \<and> extends h1 h2"
proof -
  obtain img h1 where 1: "final_image st rot = Inr img"
    "final_image_heap self rot h = Inr (fresh h + 4, h1)"
    "cells h1 (fresh h + 4) = img" "fresh h1 = fresh h + 5" "extends h h1"
    using final_image_heap_spec[OF assms, of rot] by blast
  have rep1: "represents h1 self st" by (rule represents_extends[OF assms(2) 1(5)])
  obtain img' h2 where 2: "final_image st rot = Inr img'"
    "final_image_heap self rot h1 = Inr (fresh h1 + 4, h2)"
    "cells h2 (fresh h1 + 4) = img'" "fresh h2 = fresh h1 + 5" "extends h1 h2"
    using final_image_heap_spec[OF assms(1) rep1, of rot] by blast
  have same: "img' = img" using 1(1) 2(1) by simp
  have rep2: "represents h2 self st" by (rule represents_extends[OF rep1 2(5)])
  have old: "cells h2 (fresh h + 4) = img"
    using 2(5) 1(3,4) by (simp add: extends_def)
  show ?thesis
    using 1 2 same rep1 rep2 old by (auto simp: 1(4))
qed

theorem render_deterministic_witness:
  "GravitationalLensingAnimation_init 3 = Inr (projr (GravitationalLensingAnimation_init 3))
   \<and> represents (snd (projr (init_heap 3 empty_heap))) (fst (projr (init_heap 3 empty_heap)))
        (projr (GravitationalLensingAnimation_init 3))
   \<and> (\<exists>f1 h1 f2 h2 img.
         final_image_heap (fst (projr (init_heap 3 empty_heap))) 0 (snd (projr (init_heap 3 empty_heap)))
           = Inr (f1, h1)
       \<and> final_image_heap (fst (projr (init_heap 3 empty_heap))) 0 h1 = Inr (f2, h2)
       \<and> final_image (projr (GravitationalLensingAnimation_init 3)) 0 = Inr img
       \<and> cells h1 f1 = img \<and> cells h2 f2 = img \<and> cells h2 f1 = img \<and> f1 \<noteq> f2
       \<and> represents h1 (fst (projr (init_heap 3 empty_heap))) (projr (GravitationalLensingAnimation_init 3))
       \<and> represents h2 (fst (projr (init_heap 3 empty_heap))) (projr (GravitationalLensingAnimation_init 3)))"
proof -
  define S where "S = projr (GravitationalLensingAnimation_init 3)"
  define Ob where "Ob = fst (projr (init_heap 3 empty_heap))"
  define H where "H = snd (projr (init_heap 3 empty_heap))"
  have init: "GravitationalLensingAnimation_init 3 = Inr S"
    unfolding S_def by (rule init_projr) simp
  have rep: "represents H Ob S"
    unfolding H_def Ob_def by (rule init_heap_projr[OF init])
  from render_deterministic[OF init rep, of 0]
  have "\<exists>f1 h1 f2 h2 img.
         final_image_heap Ob 0 H = Inr (f1, h1)
       \<and> final_image_heap Ob 0 h1 = Inr (f2, h2)
       \<and> final_image S 0 = Inr img
       \<and> cells h1 f1 = img \<and> cells h2 f2 = img \<and> cells h2 f1 = img \<and> f1 \<noteq> f2
       \<and> represents h1 Ob S \<and> represents h2 Ob S"
    by blast
  then show ?thesis
    using init rep unfolding S_def Ob_def H_def by blast
qed

text \<open>
  C10. The claim is that the glow lies in \<open>[0, 3]\<close> at every grid point, and that the sum of
  the clipped relativistic image and the glow, before the horizon is blanked, is therefore
  at most 5. The bound on the glow holds (\<open>glow_value_range\<close>, \<open>final_cell\<close>). The bound on
  the sum fails where the relativistic image is NaN: on a grid of odd size the centre cell
  is the origin, where \<open>doppler_shift\<close> is NaN, the clip keeps NaN, and so does the sum.
\<close>

theorem unmasked_sum_origin_nan: "unmasked_cell 3 0 1 1 = Inr NaN"
proof -
  obtain self where init: "GravitationalLensingAnimation_init 3 = Inr self"
    using init_ok[of 3] by auto
  have ij: "(1::nat) < nat 3" by simp
  have "get2 (grid (nat 3) g) (int 1) (int 1) = Inr (g 1 1)" for g
    by (rule get2_grid) simp_all
  then have g: "get2 (grid 3 g) 1 1 = Inr (g 1 1)" for g by simp
  show ?thesis
    unfolding unmasked_cell_def unmasked_image_def init ebind_def sum.case
      calculate_lensed_image_grid[OF init] apply_relativistic_effects_grid[OF init]
      create_photon_sphere_glow_grid[OF init] arr_map2_grid
    by (simp add: g coord_3_1 relativistic_value_origin)
qed

end
